theory Spec2Isabelle
  imports Complex_Main "HOL-Library.Word" "HOL-Library.AList"
begin

section \<open>Strings, numbers and regular expressions of the host language\<close>

text \<open>
  Strings are lists of 8-bit code units; every literal of the program is ASCII.
  \<open>toLowerCase\<close> maps the ASCII capitals to small letters and leaves every other
  code unit alone.
\<close>

definition toLowerChar :: "char \<Rightarrow> char" where
  "toLowerChar c =
     (let n = (of_char c :: nat) in if 65 \<le> n \<and> n \<le> 90 then char_of (n + 32) else c)"

definition toLowerCase :: "string \<Rightarrow> string" where
  "toLowerCase s = map toLowerChar s"

text \<open>\<open>s.startsWith(p)\<close>, \<open>s.endsWith(p)\<close> and \<open>s.includes(p)\<close>, also used on byte buffers.\<close>

fun startsWith :: "'a list \<Rightarrow> 'a list \<Rightarrow> bool" where
  "startsWith s [] = True"
| "startsWith [] (p # ps) = False"
| "startsWith (c # cs) (p # ps) = (c = p \<and> startsWith cs ps)"

definition endsWith :: "'a list \<Rightarrow> 'a list \<Rightarrow> bool" where
  "endsWith s p = startsWith (rev s) (rev p)"

fun js_includes :: "'a list \<Rightarrow> 'a list \<Rightarrow> bool" where
  "js_includes [] p = (p = [])"
| "js_includes (c # cs) p = (startsWith (c # cs) p \<or> js_includes cs p)"

text \<open>The decimal text of an integer, as a template literal prints it.\<close>

definition digit_char :: "int \<Rightarrow> char" where
  "digit_char d = ''0123456789'' ! nat (d mod 10)"

function dec_digits :: "int \<Rightarrow> string" where
  "dec_digits i =
     (if i < 10 then [digit_char i] else dec_digits (i div 10) @ [digit_char (i mod 10)])"
  by pat_completeness auto
termination
  by (relation "measure nat") auto

declare dec_digits.simps [simp del]

definition string_of_int :: "int \<Rightarrow> string" where
  "string_of_int i = (if i < 0 then CHR ''-'' # dec_digits (- i) else dec_digits i)"

definition string_of_nat :: "nat \<Rightarrow> string" where
  "string_of_nat n = dec_digits (int n)"

text \<open>
  The regular expressions of the classifier use literals, \<open>.\<close>, \<open>.*\<close>, \<open>.?\<close>,
  alternation, sequencing and the end anchor \<open>$\<close>, all under the flag \<open>i\<close> and none
  under \<open>g\<close>, \<open>m\<close> or \<open>s\<close>. \<open>rx_rems r s\<close> lists what is left of \<open>s\<close> after each way
  of matching \<open>r\<close> at its start; \<open>rx_test r s\<close> is \<open>r.test(s)\<close>: a match starting
  anywhere.
\<close>

datatype rx = Lit string | Dot | DotStar | DotOpt | Seq rx rx | Alt rx rx | Eol

definition line_terminator :: "char \<Rightarrow> bool" where
  "line_terminator c = (c = CHR 0x0A \<or> c = CHR 0x0D)"

fun dotstar_rems :: "string \<Rightarrow> string list" where
  "dotstar_rems [] = [[]]"
| "dotstar_rems (c # cs) = (c # cs) # (if line_terminator c then [] else dotstar_rems cs)"

fun rx_rems :: "rx \<Rightarrow> string \<Rightarrow> string list" where
  "rx_rems (Lit l) s =
     (if startsWith (toLowerCase s) (toLowerCase l) then [drop (length l) s] else [])"
| "rx_rems Dot s = (case s of [] \<Rightarrow> [] | c # cs \<Rightarrow> if line_terminator c then [] else [cs])"
| "rx_rems DotStar s = dotstar_rems s"
| "rx_rems DotOpt s = s # (case s of [] \<Rightarrow> [] | c # cs \<Rightarrow> if line_terminator c then [] else [cs])"
| "rx_rems (Seq a b) s = concat (map (rx_rems b) (rx_rems a s))"
| "rx_rems (Alt a b) s = rx_rems a s @ rx_rems b s"
| "rx_rems Eol s = (if s = [] then [[]] else [])"

fun tails :: "'a list \<Rightarrow> 'a list list" where
  "tails [] = [[]]"
| "tails (c # cs) = (c # cs) # tails cs"

definition rx_test :: "rx \<Rightarrow> string \<Rightarrow> bool" where
  "rx_test r s = list_ex (\<lambda>t. rx_rems r t \<noteq> []) (tails s)"

text \<open>An alternation of literals, \<open>/a|b|c/i\<close>.\<close>

fun alts :: "rx list \<Rightarrow> rx" where
  "alts [] = Lit []"
| "alts [r] = r"
| "alts (r # rs) = Alt r (alts rs)"

section \<open>The classifier (services/threatDetector.ts)\<close>

datatype ThreatLevel = safe | suspicious | malicious

datatype PrivacyLevel = public | sensitive | critical

text \<open>
  The types are declared at the end of App.tsx. A field the interface marks optional is an
  option here, \<open>None\<close> when the object does not have it. The fields \<open>id\<close>, \<open>size\<close> and
  \<open>type\<close> are \<open>file_id\<close>, \<open>file_size\<close> and \<open>file_type\<close>, their own names being taken.
\<close>

datatype FolderType =
  DOWNLOADS | SCREENSHOTS | DOCUMENTS | DESKTOP | RECYCLE_BIN | APPLICATIONS | QUARANTINE | VAULT

record FileItem =
  file_id :: string
  name :: string
  file_size :: int
  file_type :: string
  extension :: string
  lastModified :: string
  folder :: FolderType
  path :: string
  category :: "string option"
  version :: "string option"
  lastOpened :: "string option"
  threatLevel :: "ThreatLevel option"
  threatType :: "string option"
  privacyLevel :: "PrivacyLevel option"
  tags :: "string list option"

definition SUSPICIOUS_PATTERNS :: "rx list" where
  "SUSPICIOUS_PATTERNS =
    [ alts [Lit ''crack'', Lit ''keygen'', Lit ''patch'', Lit ''activator'', Lit ''loader''],
      alts [Lit ''hack'', Lit ''cheat'', Lit ''exploit'', Lit ''bypass''],
      alts [Seq (Lit ''.exe.txt'') Eol, Seq (Lit ''.pdf.exe'') Eol, Seq (Lit ''.doc.exe'') Eol],
      alts [Seq (Lit ''.scr'') Eol, Seq (Lit ''.pif'') Eol, Seq (Lit ''.com'') Eol],
      Seq (Lit ''temp'') (Seq DotStar (Seq (Lit ''.exe'') Eol)),
      Seq (Lit ''setup'') (Seq DotStar (Lit ''crack'')) ]"

definition MALICIOUS_PATTERNS :: "rx list" where
  "MALICIOUS_PATTERNS =
    [ alts [Lit ''trojan'', Lit ''malware'', Lit ''virus'', Lit ''ransomware'', Lit ''worm''],
      alts [Lit ''cryptolocker'', Lit ''wannacry'', Lit ''petya'', Lit ''locky''],
      alts [Lit ''keylog'', Lit ''spyware'', Lit ''adware'', Lit ''rootkit''],
      alts [Lit ''fakealert'', Lit ''rogue'', Lit ''scareware''] ]"

definition PRIVACY_CRITICAL_PATTERNS :: "rx list" where
  "PRIVACY_CRITICAL_PATTERNS =
    [ alts [Lit ''password'', Lit ''passwd'', Lit ''credential'', Lit ''secret''],
      alts [Lit ''apikey'', Lit ''api_key'', Lit ''api-key'', Lit ''token''],
      alts [Seq (Lit ''.kdbx'') Eol, Seq (Lit ''.key'') Eol, Lit ''id_rsa'', Seq (Lit ''.pem'') Eol],
      alts [Lit ''bank'', Lit ''ssn'', Seq (Lit ''social'') (Seq DotOpt (Lit ''security'')),
            Lit ''taxreturn''],
      alts [Seq (Lit ''credit'') (Seq DotOpt (Lit ''card'')), Lit ''cvv'',
            Seq (Lit ''pin'') (Seq DotOpt (Lit ''code''))],
      alts [Seq (Lit ''private'') (Seq DotOpt (Lit ''key'')),
            Seq (Lit ''secret'') (Seq DotOpt (Lit ''key''))] ]"

definition PRIVACY_SENSITIVE_PATTERNS :: "rx list" where
  "PRIVACY_SENSITIVE_PATTERNS =
    [ alts [Lit ''medical'', Lit ''health'', Lit ''insurance'', Lit ''hipaa''],
      alts [Lit ''legal'', Lit ''contract'', Lit ''agreement'', Lit ''nda''],
      alts [Lit ''payroll'', Lit ''salary'', Lit ''compensation'', Lit ''w2'', Lit ''1099''],
      alts [Lit ''invoice'', Lit ''receipt'', Lit ''statement''],
      alts [Lit ''personal'', Lit ''private'', Lit ''confidential''],
      alts [Lit ''backup'', Lit ''export'', Lit ''dump''] ]"

text \<open>The path separator of the location patterns, a backslash.\<close>

definition bsl :: string where
  "bsl = [CHR 0x5C]"

definition SUSPICIOUS_LOCATIONS :: "rx list" where
  "SUSPICIOUS_LOCATIONS =
    [ Seq (Lit (bsl @ ''AppData'' @ bsl @ ''Local'' @ bsl @ ''Temp'' @ bsl))
        (Seq DotStar (Seq (Lit ''.exe'') Eol)),
      Seq (Lit (bsl @ ''Temp'' @ bsl)) (Seq DotStar (Seq (Lit ''.exe'') Eol)),
      Seq (Lit (bsl @ ''ProgramData'' @ bsl)) (Seq DotStar (Seq (Lit ''.exe'') Eol)),
      Seq (Lit (bsl @ ''Users'' @ bsl @ ''Public'' @ bsl)) (Seq DotStar (Seq (Lit ''.exe'') Eol)) ]"

text \<open>\<open>for (const pattern of ps) if (pattern.test(s)) return ...\<close>: does the loop return?\<close>

definition any_test :: "rx list \<Rightarrow> string \<Rightarrow> bool" where
  "any_test ps s = list_ex (\<lambda>p. rx_test p s) ps"

definition analyzeThreatLevel :: "FileItem \<Rightarrow> ThreatLevel" where
  "analyzeThreatLevel file =
     (let fullPath = path file in
      if any_test MALICIOUS_PATTERNS (name file) then malicious
      else if extension file = ''.exe'' \<and> any_test SUSPICIOUS_LOCATIONS fullPath then suspicious
      else if any_test SUSPICIOUS_PATTERNS (name file) then suspicious
      else if toLowerCase (extension file)
                \<in> set [''.exe'', ''.msi'', ''.bat'', ''.cmd'', ''.ps1'', ''.vbs'', ''.js'']
              \<and> js_includes (toLowerCase fullPath) ''download'' then suspicious
      else safe)"

definition analyzePrivacyLevel :: "FileItem \<Rightarrow> PrivacyLevel" where
  "analyzePrivacyLevel file =
     (if any_test PRIVACY_CRITICAL_PATTERNS (name file) then critical
      else if toLowerCase (extension file)
                \<in> set [''.pem'', ''.key'', ''.pfx'', ''.p12'', ''.kdbx'', ''.keychain''] then critical
      else if any_test PRIVACY_SENSITIVE_PATTERNS (name file) then sensitive
      else if toLowerCase (extension file) \<in> set [''.pdf'', ''.doc'', ''.docx'', ''.xls'', ''.xlsx'']
              \<and> (js_includes (toLowerCase (name file)) ''tax''
                  \<or> js_includes (toLowerCase (name file)) ''financial''
                  \<or> js_includes (toLowerCase (name file)) ''statement'') then sensitive
      else public)"

text \<open>\<open>if (c) tags.push(t)\<close>\<close>

definition push_if :: "bool \<Rightarrow> string \<Rightarrow> string list \<Rightarrow> string list" where
  "push_if c t ts = (if c then ts @ [t] else ts)"

definition generateFileTags :: "FileItem \<Rightarrow> string list" where
  "generateFileTags file =
     (let ext = toLowerCase (extension file); n = name file in
      push_if (rx_test (Seq (Lit ''.exe.'') (Seq DotStar Eol)) n) ''Double Extension''
      (push_if (rx_test (alts [Lit ''crack'', Lit ''keygen'', Lit ''patch'']) n) ''Potential Piracy Tool''
      (push_if (ext \<in> set [''.zip'', ''.rar'', ''.7z'', ''.tar'', ''.gz'']) ''Archive''
      (push_if (ext \<in> set [''.exe'', ''.msi'']) ''Executable''
      (push_if (rx_test (alts [Lit ''backup'', Seq (Lit ''bak'') Eol]) n) ''Backup File''
      (push_if (rx_test (alts [Lit ''screenshot'', Seq (Lit ''screen'') (Seq DotOpt (Lit ''cap''))]) n)
         ''Screenshot''
      (push_if (rx_test (alts [Lit ''bank'', Lit ''financial'']) n) ''Financial Data''
      (push_if (rx_test (alts [Lit ''password'', Lit ''credential'']) n) ''Contains Credentials''
      (push_if (file_size file > 1024 * 1024 * 1000) ''Very Large''
      (push_if (file_size file > 1024 * 1024 * 100) ''Large File'' []))))))))))"

definition getThreatType :: "FileItem \<Rightarrow> string option" where
  "getThreatType file =
     (let fullPath = path file in
      if any_test MALICIOUS_PATTERNS (name file) then Some ''Malware:Generic/Suspicious''
      else if rx_test (alts [Lit ''crack'', Lit ''keygen'']) (name file) then Some ''PUP:Win32/Keygen''
      else if rx_test (Lit ''.exe.'') (name file) then Some ''Trojan:Generic/DoubleExt''
      else if js_includes (toLowerCase fullPath) ''temp'' \<and> endsWith (name file) ''.exe''
        then Some ''Suspicious:Temp/Executable''
      else None)"

definition analyzeFiles :: "FileItem list \<Rightarrow> FileItem list" where
  "analyzeFiles files =
     map (\<lambda>file. file\<lparr> threatLevel := Some (analyzeThreatLevel file),
                       privacyLevel := Some (analyzePrivacyLevel file),
                       threatType := getThreatType file,
                       tags := Some (generateFileTags file) \<rparr>) files"

datatype SecurityStatus = alert | warning | protected

record SecuritySummary =
  totalFiles :: nat
  maliciousCount :: nat
  suspiciousCount :: nat
  criticalPrivacyCount :: nat
  sensitivePrivacyCount :: nat
  integrityScore :: int
  status :: SecurityStatus

definition getSecuritySummary :: "FileItem list \<Rightarrow> SecuritySummary" where
  "getSecuritySummary files =
     (let malicious_n = length (filter (\<lambda>f. threatLevel f = Some malicious) files);
          suspicious_n = length (filter (\<lambda>f. threatLevel f = Some suspicious) files);
          critical_n = length (filter (\<lambda>f. privacyLevel f = Some critical) files);
          sensitive_n = length (filter (\<lambda>f. privacyLevel f = Some sensitive) files);
          score = (100 :: int);
          score = score - int malicious_n * 25;
          score = score - int suspicious_n * 5;
          score = score - int critical_n * 10;
          score = score - int sensitive_n * 2
      in \<lparr> totalFiles = length files,
           maliciousCount = malicious_n,
           suspiciousCount = suspicious_n,
           criticalPrivacyCount = critical_n,
           sensitivePrivacyCount = sensitive_n,
           integrityScore = max 0 (min 100 score),
           status = (if malicious_n > 0 then alert
                     else if suspicious_n > 0 then warning else protected) \<rparr>)"

section \<open>The file system and the library of the host (electron/main.cjs)\<close>

text \<open>
  Paths in POSIX form. \<open>path.join(dir, name)\<close> is only ever applied to a directory in
  normal form and a plain entry name, where it puts one separator between the two.
  \<open>path.basename\<close> drops trailing separators and keeps what follows the last remaining
  one; \<open>path.extname\<close> is the part of the base name from its last dot, empty when there
  is no dot, when the only dot leads the name, or when the name is \<open>..\<close>.
\<close>

definition sep :: char where
  "sep = CHR ''/''"

definition path_join :: "string \<Rightarrow> string \<Rightarrow> string" where
  "path_join dir entry = dir @ [sep] @ entry"

definition basename :: "string \<Rightarrow> string" where
  "basename p = rev (takeWhile (\<lambda>c. c \<noteq> sep) (dropWhile (\<lambda>c. c = sep) (rev p)))"


type_synonym byte = "8 word"

type_synonym buffer = "byte list"


datatype node = File buffer | Directory

datatype fs_error =
  ENOENT | EISDIR | ENOTDIR | EEXIST | EACCES | EIO | ERR_OUT_OF_RANGE | JSON_SyntaxError
  | File_not_found | File_too_large

text \<open>
  The side-record of a held file. The quarantine handler writes the key \<open>quarantinedAt\<close>,
  the vault handler \<open>vaultedAt\<close>; \<open>reason\<close> is absent when the caller passed none.
\<close>

record metadata =
  originalPath :: string
  originalName :: string
  quarantinedAt :: "string option"
  vaultedAt :: "string option"
  reason :: "string option"
  sha256 :: string

text \<open>
  What the handlers take from the platform: the application's data directory, the SHA-256
  digest in hexadecimal, \<open>JSON.stringify\<close> and \<open>JSON.parse\<close> on side-records (with the
  UTF-8 coding of the text folded in; \<open>None\<close> is a thrown \<open>SyntaxError\<close>), the stream of
  bytes behind \<open>crypto.randomBytes\<close>, and the size \<open>fs.statSync\<close> reports for a directory.
  The platform can also refuse: \<open>mkdir_error\<close> is the error with which it refuses to
  create the directory of a given path (no permission, read-only volume), \<open>stream_error\<close> the error a read
  stream on a regular file ends with (unreadable file, interrupted read); \<open>None\<close> is no
  refusal.
\<close>

record host =
  userData :: string
  sha256_hex :: "buffer \<Rightarrow> string"
  JSON_stringify :: "metadata \<Rightarrow> buffer"
  JSON_parse :: "buffer \<Rightarrow> metadata option"
  random_stream :: "nat \<Rightarrow> byte"
  directory_size :: int
  mkdir_error :: "string \<Rightarrow> fs_error option"
  stream_error :: "string \<Rightarrow> fs_error option"

text \<open>
  The effects a handler has, in the order it has them: directory creation, digest
  computation, rename, write and unlink each leave an event when they are attempted.
\<close>

datatype event =
  EvMkdir string | EvHash string | EvRename string string | EvWrite string buffer
  | EvUnlink string

text \<open>
  The world: the file system as an association list from path to node (the first binding of
  a path counts), the log of effects, and how many random bytes have been drawn.
\<close>

record world =
  nodes :: "(string \<times> node) list"
  trace :: "event list"
  rng_pos :: nat

type_synonym 'a io = "world \<Rightarrow> (fs_error + 'a) \<times> world"

definition io_return :: "'a \<Rightarrow> 'a io" where
  "io_return x w = (Inr x, w)"

definition io_throw :: "fs_error \<Rightarrow> 'a io" where
  "io_throw e w = (Inl e, w)"

definition io_bind :: "'a io \<Rightarrow> ('a \<Rightarrow> 'b io) \<Rightarrow> 'b io" where
  "io_bind m f w = (case m w of (Inl e, w') \<Rightarrow> (Inl e, w') | (Inr x, w') \<Rightarrow> f x w')"

definition emit :: "event \<Rightarrow> world \<Rightarrow> world" where
  "emit ev w = w\<lparr>trace := trace w @ [ev]\<rparr>"

definition existsSync :: "string \<Rightarrow> world \<Rightarrow> bool" where
  "existsSync p w = (map_of (nodes w) p \<noteq> None)"

text \<open>
  \<open>fs.mkdirSync(p, {recursive: true})\<close> creates \<open>p\<close> and every ancestor of \<open>p\<close> that is
  missing. \<open>dir_chain p\<close> lists the ancestors of \<open>p\<close> below the root from the top down,
  then \<open>p\<close> itself; \<open>mkdir_chain\<close> walks that list, creating what is missing. The call
  throws when the platform refuses to create one of them or when a regular file stands
  where a directory is needed; the directories created before that remain.
\<close>

definition dir_chain :: "string \<Rightarrow> string list" where
  "dir_chain p = map (\<lambda>i. take i p) (filter (\<lambda>i. p ! i = sep) [1 ..< length p]) @ [p]"

fun mkdir_chain ::
  "host \<Rightarrow> string list \<Rightarrow> (string \<times> node) list \<Rightarrow> fs_error option \<times> (string \<times> node) list" where
  "mkdir_chain h [] al = (None, al)"
| "mkdir_chain h (q # qs) al =
     (case map_of al q of
        Some Directory \<Rightarrow> mkdir_chain h qs al
      | Some (File b) \<Rightarrow> (Some (if qs = [] then EEXIST else ENOTDIR), al)
      | None \<Rightarrow>
          (case mkdir_error h q of
             Some e \<Rightarrow> (Some e, al)
           | None \<Rightarrow> mkdir_chain h qs (AList.update q Directory al)))"

definition mkdirSync :: "host \<Rightarrow> string \<Rightarrow> unit io" where
  "mkdirSync h p w =
     (let w1 = emit (EvMkdir p) w;
          (err, al) = mkdir_chain h (dir_chain p) (nodes w1);
          w2 = w1\<lparr>nodes := al\<rparr>
      in case err of Some e \<Rightarrow> (Inl e, w2) | None \<Rightarrow> (Inr (), w2))"


definition readFileSync :: "string \<Rightarrow> buffer io" where
  "readFileSync p w =
     (case map_of (nodes w) p of
        None \<Rightarrow> (Inl ENOENT, w)
      | Some (File b) \<Rightarrow> (Inr b, w)
      | Some Directory \<Rightarrow> (Inl EISDIR, w))"

definition writeFileSync :: "string \<Rightarrow> buffer \<Rightarrow> unit io" where
  "writeFileSync p data w =
     (let w1 = emit (EvWrite p data) w in
      case map_of (nodes w1) p of
        Some Directory \<Rightarrow> (Inl EISDIR, w1)
      | _ \<Rightarrow> (Inr (), w1\<lparr>nodes := AList.update p (File data) (nodes w1)\<rparr>))"

definition unlinkSync :: "string \<Rightarrow> unit io" where
  "unlinkSync p w =
     (let w1 = emit (EvUnlink p) w in
      case map_of (nodes w1) p of
        None \<Rightarrow> (Inl ENOENT, w1)
      | Some Directory \<Rightarrow> (Inl EISDIR, w1)
      | Some (File b) \<Rightarrow> (Inr (), w1\<lparr>nodes := AList.delete p (nodes w1)\<rparr>))"

text \<open>
  \<open>fs.renameSync(src, dst)\<close>: a regular file replaces whatever regular file is at \<open>dst\<close>;
  a directory moves with everything below it.
\<close>

definition move_path :: "string \<Rightarrow> string \<Rightarrow> string \<Rightarrow> string" where
  "move_path src dst p =
     (if p = src then dst
      else if startsWith p (src @ [sep]) then dst @ drop (length src) p else p)"

definition renameSync :: "string \<Rightarrow> string \<Rightarrow> unit io" where
  "renameSync src dst w =
     (let w1 = emit (EvRename src dst) w in
      case map_of (nodes w1) src of
        None \<Rightarrow> (Inl ENOENT, w1)
      | Some (File b) \<Rightarrow>
          (if src = dst then (Inr (), w1)
           else if map_of (nodes w1) dst = Some Directory then (Inl EISDIR, w1)
           else (Inr (), w1\<lparr>nodes := AList.update dst (File b) (AList.delete src (nodes w1))\<rparr>))
      | Some Directory \<Rightarrow>
          (if src = dst then (Inr (), w1)
           else case map_of (nodes w1) dst of
             Some (File b) \<Rightarrow> (Inl ENOTDIR, w1)
           | _ \<Rightarrow> (Inr (), w1\<lparr>nodes := map (\<lambda>(p, n). (move_path src dst p, n))
                                              (AList.delete dst (nodes w1))\<rparr>)))"

text \<open>\<open>fs.readdirSync(dir)\<close>: the names of the entries directly in \<open>dir\<close>.\<close>

definition entry_name :: "string \<Rightarrow> string \<Rightarrow> string option" where
  "entry_name dir p =
     (if startsWith p (dir @ [sep]) \<and> drop (length dir + 1) p \<noteq> []
         \<and> sep \<notin> set (drop (length dir + 1) p)
      then Some (drop (length dir + 1) p) else None)"

definition readdirSync :: "string \<Rightarrow> string list io" where
  "readdirSync dir w =
     (case map_of (nodes w) dir of
        None \<Rightarrow> (Inl ENOENT, w)
      | Some (File b) \<Rightarrow> (Inl ENOTDIR, w)
      | Some Directory \<Rightarrow>
          (Inr (remdups (List.map_filter (entry_name dir) (map fst (nodes w)))), w))"


text \<open>
  \<open>getFileHash\<close>: the promise rejects when the read stream emits \<open>error\<close>: the path is
  missing or a directory, or the platform ends the stream on the regular file with an
  error.
\<close>

definition getFileHash :: "host \<Rightarrow> string \<Rightarrow> string io" where
  "getFileHash h filePath w =
     (let w1 = emit (EvHash filePath) w in
      case map_of (nodes w1) filePath of
        None \<Rightarrow> (Inl ENOENT, w1)
      | Some Directory \<Rightarrow> (Inl EISDIR, w1)
      | Some (File b) \<Rightarrow>
          (case stream_error h filePath of
             Some e \<Rightarrow> (Inl e, w1)
           | None \<Rightarrow> (Inr (sha256_hex h b), w1)))"

definition parse_metadata :: "host \<Rightarrow> buffer \<Rightarrow> metadata io" where
  "parse_metadata h content =
     (case JSON_parse h content of None \<Rightarrow> io_throw JSON_SyntaxError | Some m \<Rightarrow> io_return m)"

definition getQuarantineDir :: "host \<Rightarrow> string io" where
  "getQuarantineDir h =
     (let appDataDir = userData h;
          quarantineDir = path_join appDataDir ''Quarantine''
      in (\<lambda>w. if \<not> existsSync quarantineDir w
               then io_bind (mkdirSync h quarantineDir) (\<lambda>_. io_return quarantineDir) w
               else io_return quarantineDir w))"

definition getVaultDir :: "host \<Rightarrow> string io" where
  "getVaultDir h =
     (let appDataDir = userData h;
          vaultDir = path_join appDataDir ''Vault''
      in (\<lambda>w. if \<not> existsSync vaultDir w
               then io_bind (mkdirSync h vaultDir) (\<lambda>_. io_return vaultDir) w
               else io_return vaultDir w))"

section \<open>The disposition handlers (electron/main.cjs)\<close>

text \<open>
  Each handler returns \<open>{success: true, ...}\<close> (here \<open>Inr\<close>) or, from its \<open>catch\<close>,
  \<open>{success: false, error}\<close> (here \<open>Inl\<close>). \<open>timestamp\<close> is the reading of \<open>Date.now()\<close>,
  \<open>isoNow\<close> the text of \<open>new Date().toISOString()\<close>.
\<close>

definition fs_quarantine :: "host \<Rightarrow> int \<Rightarrow> string \<Rightarrow> string \<Rightarrow> string option \<Rightarrow> string io" where
  "fs_quarantine h timestamp isoNow filePath reason' =
     io_bind (getQuarantineDir h) (\<lambda>quarantineDir.
       let fileName = basename filePath;
           quarantinedName = string_of_int timestamp @ ''_'' @ fileName @ ''.quarantined'';
           quarantinedPath = path_join quarantineDir quarantinedName
       in io_bind (getFileHash h filePath) (\<lambda>digest.
            let metadata = \<lparr> originalPath = filePath, originalName = fileName,
                             quarantinedAt = Some isoNow, vaultedAt = None,
                             reason = reason', sha256 = digest \<rparr>
            in io_bind (renameSync filePath quarantinedPath) (\<lambda>_.
                 let metadataPath = quarantinedPath @ ''.meta.json''
                 in io_bind (writeFileSync metadataPath (JSON_stringify h metadata)) (\<lambda>_.
                      io_return quarantinedPath))))"

definition fs_restore :: "host \<Rightarrow> string \<Rightarrow> string io" where
  "fs_restore h quarantinedPath =
     (let metadataPath = quarantinedPath @ ''.meta.json''
      in io_bind (readFileSync metadataPath) (\<lambda>content.
           io_bind (parse_metadata h content) (\<lambda>metadata.
             io_bind (renameSync quarantinedPath (originalPath metadata)) (\<lambda>_.
               io_bind (unlinkSync metadataPath) (\<lambda>_.
                 io_return (originalPath metadata))))))"

definition fs_vault :: "host \<Rightarrow> int \<Rightarrow> string \<Rightarrow> string \<Rightarrow> string option \<Rightarrow> string io" where
  "fs_vault h timestamp isoNow filePath reason' =
     io_bind (getVaultDir h) (\<lambda>vaultDir.
       let fileName = basename filePath;
           vaultedName = string_of_int timestamp @ ''_'' @ fileName @ ''.vault'';
           vaultedPath = path_join vaultDir vaultedName
       in io_bind (getFileHash h filePath) (\<lambda>digest.
            let metadata = \<lparr> originalPath = filePath, originalName = fileName,
                             quarantinedAt = None, vaultedAt = Some isoNow,
                             reason = reason', sha256 = digest \<rparr>
            in io_bind (renameSync filePath vaultedPath) (\<lambda>_.
                 let metadataPath = vaultedPath @ ''.meta.json''
                 in io_bind (writeFileSync metadataPath (JSON_stringify h metadata)) (\<lambda>_.
                      io_return vaultedPath))))"

definition fs_unvault :: "host \<Rightarrow> string \<Rightarrow> string io" where
  "fs_unvault h vaultedPath =
     (let metadataPath = vaultedPath @ ''.meta.json''
      in io_bind (readFileSync metadataPath) (\<lambda>content.
           io_bind (parse_metadata h content) (\<lambda>metadata.
             io_bind (renameSync vaultedPath (originalPath metadata)) (\<lambda>_.
               io_bind (unlinkSync metadataPath) (\<lambda>_.
                 io_return (originalPath metadata))))))"




text \<open>An entry of a listing: the side-record spread, and the path of the held content.\<close>

record holding_entry =
  entry_metadata :: metadata
  heldPath :: string

text \<open>
  The loop of the listing handlers over the directory's names; \<open>suffix\<close> is
  \<open>.quarantined\<close> or \<open>.vault\<close>. A read or parse that throws ends the loop.
\<close>

fun list_loop ::
  "host \<Rightarrow> string \<Rightarrow> string \<Rightarrow> string list \<Rightarrow> holding_entry list \<Rightarrow> holding_entry list io"
where
  "list_loop h dir suffix [] acc = io_return acc"
| "list_loop h dir suffix (file # rest) acc =
     (if endsWith file ''.meta.json'' then list_loop h dir suffix rest acc
      else if \<not> endsWith file suffix then list_loop h dir suffix rest acc
      else (let metadataPath = path_join dir (file @ ''.meta.json'')
            in (\<lambda>w. if existsSync metadataPath w
                     then io_bind (readFileSync metadataPath) (\<lambda>content.
                            io_bind (parse_metadata h content) (\<lambda>metadata.
                              list_loop h dir suffix rest
                                (acc @ [\<lparr> entry_metadata = metadata,
                                           heldPath = path_join dir file \<rparr>]))) w
                     else list_loop h dir suffix rest acc w)))"

text \<open>The handlers' \<open>catch\<close> returns the empty list.\<close>

definition or_empty :: "'a list io \<Rightarrow> world \<Rightarrow> 'a list \<times> world" where
  "or_empty m w = (case m w of (Inl e, w') \<Rightarrow> ([], w') | (Inr xs, w') \<Rightarrow> (xs, w'))"

definition fs_list_quarantine :: "host \<Rightarrow> world \<Rightarrow> holding_entry list \<times> world" where
  "fs_list_quarantine h =
     or_empty (io_bind (getQuarantineDir h) (\<lambda>quarantineDir.
       io_bind (readdirSync quarantineDir) (\<lambda>names.
         list_loop h quarantineDir ''.quarantined'' names [])))"

definition fs_list_vault :: "host \<Rightarrow> world \<Rightarrow> holding_entry list \<times> world" where
  "fs_list_vault h =
     or_empty (io_bind (getVaultDir h) (\<lambda>vaultDir.
       io_bind (readdirSync vaultDir) (\<lambda>names.
         list_loop h vaultDir ''.vault'' names [])))"

section \<open>The forensic scanner (electron/main.cjs, \<open>fs:deep-scan\<close>)\<close>

text \<open>
  Numbers of the entropy computation are real numbers here, and \<open>None\<close> stands for the
  result of a division by zero, which every later operation inherits.
\<close>

definition js_div :: "real \<Rightarrow> real \<Rightarrow> real option" where
  "js_div a b = (if b = 0 then None else Some (a / b))"

text \<open>\<open>counts[buffer[i]]++\<close> over the buffer, from 256 zeros.\<close>

definition byte_counts :: "buffer \<Rightarrow> nat list" where
  "byte_counts buf = fold (\<lambda>b counts. counts[unat b := counts ! unat b + 1]) buf (replicate 256 0)"

fun entropy_loop :: "nat list \<Rightarrow> nat \<Rightarrow> real option \<Rightarrow> real option" where
  "entropy_loop [] len entropy = entropy"
| "entropy_loop (count # counts) len entropy =
     (if count > 0
      then entropy_loop counts len
             (case js_div (real count) (real len) of
                None \<Rightarrow> None
              | Some p \<Rightarrow> (case entropy of None \<Rightarrow> None | Some e \<Rightarrow> Some (e - p * log 2 p)))
      else entropy_loop counts len entropy)"

definition buffer_entropy :: "buffer \<Rightarrow> real option" where
  "buffer_entropy buf = entropy_loop (byte_counts buf) (length buf) (Some 0)"




record ForensicReport =
  findings :: "string list"
  report_threatLevel :: ThreatLevel
  report_entropy :: "real option"
  timestamp :: string





section \<open>The Sentry scheduler (App.tsx)\<close>

text \<open>
  \<open>Notification\<close> and \<open>AppSettings\<close> as App.tsx declares them. The type of a notification
  is one of three texts, which also are the keys of the snooze map (a
  \<open>Record<string, number>\<close>); \<open>type_key\<close> gives the text.
\<close>

datatype NotificationType = Type_SCREENSHOTS | Type_STORAGE | Type_SECURITY

fun type_key :: "NotificationType \<Rightarrow> string" where
  "type_key Type_SCREENSHOTS = ''SCREENSHOTS''"
| "type_key Type_STORAGE = ''STORAGE''"
| "type_key Type_SECURITY = ''SECURITY''"

record Notification =
  note_id :: string
  title :: string
  message :: string
  note_type :: NotificationType
  actionPrompt :: "string option"

datatype Sensitivity = low | medium | high

record AppSettings =
  aiSensitivity :: Sensitivity
  enableNativeNotifications :: bool
  enableProactiveSentry :: bool
  sentryScanInterval :: int
  autoOrganizeDownloads :: bool
  monitoredFolders :: "FolderType list"
  vaultStoragePath :: string
  vaultPin :: string
  isVaultLocked :: bool

text \<open>The preview the window shows: \<open>FolderType | 'none' | 'settings'\<close>.\<close>

datatype Preview = preview_none | preview_settings | preview_folder FolderType

text \<open>
  The state the scheduler and the notification handler share: settings, outbox, snooze map,
  and what they hand to their collaborators (native alerts, chat prompts, the open preview).
\<close>

record app_state =
  settings :: AppSettings
  notifications :: "Notification list"
  snoozeMap :: "string \<rightharpoonup> int"
  native_alerts :: "(string \<times> string \<times> string) list"
  sent_messages :: "string list"
  activePreview :: Preview

definition SNOOZE_DURATION :: int where
  "SNOOZE_DURATION = 30 * 60 * 1000"

text \<open>\<open>snoozeMap[key] || 0\<close>\<close>

definition snooze_or_0 :: "(string \<rightharpoonup> int) \<Rightarrow> string \<Rightarrow> int" where
  "snooze_or_0 m key = (case m key of None \<Rightarrow> 0 | Some t \<Rightarrow> t)"

text \<open>\<open>xs.slice(-3)\<close>\<close>

definition slice_last3 :: "'a list \<Rightarrow> 'a list" where
  "slice_last3 xs = drop (length xs - 3) xs"

text \<open>
  One run of the interval callback: \<open>currentFiles\<close> is what \<open>scanUserDirectories()\<close>
  returned, \<open>now\<close> the reading of \<open>Date.now()\<close>. Returns the new notifications too.
\<close>

definition sentryTick :: "FileItem list \<Rightarrow> int \<Rightarrow> app_state \<Rightarrow> Notification list \<times> app_state" where
  "sentryTick currentFiles now st =
     (if \<not> enableProactiveSentry (settings st) then ([], st)
      else
        let screenshots = filter (\<lambda>f. folder f = SCREENSHOTS) currentFiles;
            unorganizedDownloads = filter (\<lambda>f. folder f = DOWNLOADS) currentFiles;
            newNotes = [];
            ssSnoozed = (snooze_or_0 (snoozeMap st) ''SCREENSHOTS'' + SNOOZE_DURATION > now);
            newNotes =
              (if length screenshots > 15 \<and> \<not> ssSnoozed
               then newNotes @
                 [\<lparr> note_id = ''ss-'' @ string_of_int now,
                    title = ''Screenshot Accumulation'',
                    message = ''I noticed you have '' @ string_of_nat (length screenshots)
                      @ '' screenshots. Would you like me to identify those you might want to discard?'',
                    note_type = Type_SCREENSHOTS,
                    actionPrompt = Some (''Barricade, I have too many screenshots (''
                      @ string_of_nat (length screenshots)
                      @ ''). Help me audit and delete the ones I don'' @ [CHR 0x27] @ ''t need.'') \<rparr>]
               else newNotes);
            dlSnoozed = (snooze_or_0 (snoozeMap st) ''STORAGE'' + SNOOZE_DURATION > now);
            newNotes =
              (if length unorganizedDownloads > 10 \<and> \<not> dlSnoozed
               then newNotes @
                 [\<lparr> note_id = ''dl-'' @ string_of_int now,
                    title = ''Clutter Detected'',
                    message = ''Your Downloads sector is becoming unorganized. Shall I perform a Smart Organize protocol?'',
                    note_type = Type_STORAGE,
                    actionPrompt = Some ''Barricade, my Downloads are a mess. Please perform a Smart Organize and tidy them up for me.'' \<rparr>]
               else newNotes)
        in if length newNotes > 0
           then (newNotes,
                 st\<lparr> notifications := slice_last3 (notifications st @ newNotes),
                     native_alerts :=
                       (if enableNativeNotifications (settings st)
                        then native_alerts st @ map (\<lambda>n. (title n, message n, note_id n)) newNotes
                        else native_alerts st) \<rparr>)
           else (newNotes, st))"

text \<open>
  \<open>handleNotificationAction(id, snooze)\<close> at clock reading \<open>now\<close>: the dismiss button
  calls it with \<open>snooze = true\<close>, the action button and a click on the native alert with
  \<open>snooze = false\<close>.
\<close>

definition handleNotificationAction :: "string \<Rightarrow> bool \<Rightarrow> int \<Rightarrow> app_state \<Rightarrow> app_state" where
  "handleNotificationAction ident snooze now st =
     (let st1 =
        (case find (\<lambda>n. note_id n = ident) (notifications st) of
           None \<Rightarrow> st
         | Some note \<Rightarrow>
             if snooze then st\<lparr> snoozeMap := (snoozeMap st)(type_key (note_type note) \<mapsto> now) \<rparr>
             else (case actionPrompt note of
                     None \<Rightarrow> st
                   | Some prompt \<Rightarrow>
                       if prompt = [] then st
                       else st\<lparr> activePreview :=
                                  (if note_type note = Type_STORAGE then preview_folder DOWNLOADS
                                   else if note_type note = Type_SCREENSHOTS
                                     then preview_folder SCREENSHOTS
                                   else activePreview st),
                                sent_messages := sent_messages st @ [prompt],
                                snoozeMap := (snoozeMap st)(type_key (note_type note) \<mapsto> now) \<rparr>))
      in st1\<lparr> notifications := filter (\<lambda>n. note_id n \<noteq> ident) (notifications st1) \<rparr>)"

section \<open>Auxiliary definitions for the statements and their instances\<close>

text \<open>An entry of a listing is paired in a world when its side-record is a regular file
  there that parses to the entry's metadata.\<close>

definition paired :: "host \<Rightarrow> world \<Rightarrow> holding_entry \<Rightarrow> bool" where
  "paired h w e = (\<exists>b. map_of (nodes w) (heldPath e @ ''.meta.json'') = Some (File b)
                      \<and> JSON_parse h b = Some (entry_metadata e))"

text \<open>
  A concrete host to run the handlers on. Its serialisation of side-records is a simple
  tagged coding with an exact inverse; its digest prints the bytes in decimal.
\<close>

definition enc_str :: "string \<Rightarrow> buffer" where
  "enc_str s = concat (map (\<lambda>c. [1, of_nat (of_char c)]) s) @ [0]"

fun dec_str :: "buffer \<Rightarrow> (string \<times> buffer) option" where
  "dec_str [] = None"
| "dec_str [t] = (if t = 0 then Some ([], []) else None)"
| "dec_str (t # c # r) =
     (if t = 0 then Some ([], c # r)
      else if t = 1
        then (case dec_str r of None \<Rightarrow> None | Some (s, r') \<Rightarrow> Some (char_of (unat c) # s, r'))
      else None)"

definition enc_opt :: "string option \<Rightarrow> buffer" where
  "enc_opt x = (case x of None \<Rightarrow> [2] | Some s \<Rightarrow> 3 # enc_str s)"

definition dec_opt :: "buffer \<Rightarrow> (string option \<times> buffer) option" where
  "dec_opt b =
     (case b of [] \<Rightarrow> None
      | t # r \<Rightarrow> if t = 2 then Some (None, r)
                 else if t = 3 then map_option (\<lambda>(s, r'). (Some s, r')) (dec_str r)
                 else None)"

definition sample_stringify :: "metadata \<Rightarrow> buffer" where
  "sample_stringify m =
     enc_str (originalPath m) @ enc_str (originalName m) @ enc_opt (quarantinedAt m)
     @ enc_opt (vaultedAt m) @ enc_opt (reason m) @ enc_str (sha256 m)"

definition sample_parse :: "buffer \<Rightarrow> metadata option" where
  "sample_parse b =
     Option.bind (dec_str b) (\<lambda>(op, b1).
     Option.bind (dec_str b1) (\<lambda>(on, b2).
     Option.bind (dec_opt b2) (\<lambda>(qa, b3).
     Option.bind (dec_opt b3) (\<lambda>(va, b4).
     Option.bind (dec_opt b4) (\<lambda>(re, b5).
     Option.bind (dec_str b5) (\<lambda>(sh, b6).
       if b6 = [] then Some \<lparr> originalPath = op, originalName = on, quarantinedAt = qa,
                               vaultedAt = va, reason = re, sha256 = sh \<rparr>
       else None))))))"

definition sample_host :: host where
  "sample_host =
     \<lparr> userData = ''/data'',
       sha256_hex = (\<lambda>b. concat (map (\<lambda>x. string_of_nat (unat x) @ ''.'') b)),
       JSON_stringify = sample_stringify,
       JSON_parse = sample_parse,
       random_stream = (\<lambda>i. of_nat (7 * i + 3)),
       directory_size = 4096,
       mkdir_error = (\<lambda>p. None),
       stream_error = (\<lambda>p. None) \<rparr>"

definition sample_metadata :: metadata where
  "sample_metadata =
     \<lparr> originalPath = ''/home/u/a.txt'', originalName = ''a.txt'',
       quarantinedAt = Some ''2024-01-01T00:00:00.000Z'', vaultedAt = None,
       reason = Some ''flagged'', sha256 = ''1.2.'' \<rparr>"

definition holding_world :: world where
  "holding_world =
     \<lparr> nodes = [ (''/data/Quarantine'', Directory),
                 (''/data/Quarantine/17_a.txt.quarantined'', File [1, 2]),
                 (''/data/Quarantine/17_a.txt.quarantined.meta.json'',
                    File (sample_stringify sample_metadata)),
                 (''/data/Quarantine/18_b.txt.quarantined'', File [3]) ],
       trace = [], rng_pos = 0 \<rparr>"

text \<open>
  The two placement handlers share one shape: look the holding directory up, then digest,
  move, and write the side-record. \<open>place_file\<close> is that shape, with the directory lookup,
  the suffix and the time-stamp key as parameters.
\<close>

definition place_tail ::
  "host \<Rightarrow> string \<Rightarrow> (metadata \<Rightarrow> metadata) \<Rightarrow> string \<Rightarrow> string option \<Rightarrow> string \<Rightarrow> string io" where
  "place_tail h held stamp filePath reason' dir' =
     io_bind (getFileHash h filePath) (\<lambda>digest.
       io_bind (renameSync filePath held) (\<lambda>_.
         io_bind (writeFileSync (held @ ''.meta.json'')
                    (JSON_stringify h
                       (stamp \<lparr> originalPath = filePath, originalName = basename filePath,
                                 quarantinedAt = None, vaultedAt = None,
                                 reason = reason', sha256 = digest \<rparr>))) (\<lambda>_.
           io_return held)))"

definition place_file ::
  "host \<Rightarrow> string io \<Rightarrow> string \<Rightarrow> (metadata \<Rightarrow> metadata) \<Rightarrow> int \<Rightarrow> string \<Rightarrow> string option \<Rightarrow> string io" where
  "place_file h getDir suffix stamp timestamp' filePath reason' =
     io_bind getDir (\<lambda>dir'.
       place_tail h (path_join dir' (string_of_int timestamp' @ ''_'' @ basename filePath @ suffix))
         stamp filePath reason' dir')"

definition home_world :: world where
  "home_world = \<lparr> nodes = [(''/home/u/a.txt'', File [1, 2])], trace = [], rng_pos = 0 \<rparr>"




text \<open>The spec's \<open>clamp(x, lo, hi)\<close>, written after the spec's words.\<close>

definition spec_clamp :: "int \<Rightarrow> int \<Rightarrow> int \<Rightarrow> int" where
  "spec_clamp x lo hi = (if x < lo then lo else if hi < x then hi else x)"

definition witness_file :: FileItem where
  "witness_file =
     \<lparr> file_id = ''f1'', name = ''My_TROJAN.txt'', file_size = 10, file_type = ''Document'',
       extension = ''.txt'', lastModified = ''2024-01-01T00:00:00.000Z'', folder = DOCUMENTS,
       path = ''/home/u/Documents/My_TROJAN.txt'', category = Some ''notes'', version = None,
       lastOpened = Some ''2024-02-01T00:00:00.000Z'', threatLevel = Some safe,
       threatType = None, privacyLevel = Some public, tags = Some [] \<rparr>"

text \<open>
  What a lookup of the holding directory \<open>d\<close> may do: it draws no random bytes, it changes
  the file system at most by creating directories that were missing, each of them \<open>d\<close> or an
  ancestor of \<open>d\<close>, and it either returns \<open>d\<close>, having attempted at most the creation of
  \<open>d\<close>, or throws after attempting that creation.
\<close>

definition dir_lookup :: "string \<Rightarrow> world \<Rightarrow> fs_error + string \<Rightarrow> world \<Rightarrow> bool" where
  "dir_lookup d w r w' =
     (rng_pos w' = rng_pos w
      \<and> (\<forall>q. map_of (nodes w') q = map_of (nodes w) q
              \<or> (q \<in> set (dir_chain d) \<and> map_of (nodes w) q = None
                  \<and> map_of (nodes w') q = Some Directory))
      \<and> (case r of
            Inr d' \<Rightarrow> d' = d \<and> (trace w' = trace w \<or> trace w' = trace w @ [EvMkdir d])
          | Inl e \<Rightarrow> trace w' = trace w @ [EvMkdir d]))"

text \<open>
  A first run: the data directory exists, the holding directories do not. And a host that
  refuses to create the vault directory and ends the read stream on one file with an error.
\<close>

definition first_run_world :: world where
  "first_run_world =
     \<lparr> nodes = [(''/data'', Directory), (''/home/u/a.txt'', File [1, 2])], trace = [], rng_pos = 0 \<rparr>"

definition refusing_host :: host where
  "refusing_host =
     sample_host\<lparr> mkdir_error := (\<lambda>p. if p = ''/data/Vault'' then Some EACCES else None),
                  stream_error := (\<lambda>p. if p = ''/home/u/a.txt'' then Some EIO else None) \<rparr>"

text \<open>A screenshot, a state of the application before any notification, and the
  notifications of type \<open>SCREENSHOTS\<close> in a list.\<close>

definition screenshot_file :: FileItem where
  "screenshot_file =
     \<lparr> file_id = ''s1'', name = ''Screenshot 2023-11-14.png'', file_size = 20480,
       file_type = ''Image'', extension = ''.png'', lastModified = ''2023-11-14T22:00:00.000Z'',
       folder = SCREENSHOTS, path = ''/home/u/Pictures/Screenshots/Screenshot 2023-11-14.png'',
       category = None, version = None, lastOpened = None, threatLevel = Some safe,
       threatType = None, privacyLevel = Some public, tags = Some [''Screenshot''] \<rparr>"

definition idle_state :: app_state where
  "idle_state =
     \<lparr> settings = \<lparr> aiSensitivity = medium, enableNativeNotifications = True,
                    enableProactiveSentry = True, sentryScanInterval = 1,
                    autoOrganizeDownloads = False,
                    monitoredFolders = [DOWNLOADS, SCREENSHOTS, DOCUMENTS],
                    vaultStoragePath = [], vaultPin = ''1234'', isVaultLocked = True \<rparr>,
       notifications = [], snoozeMap = Map.empty, native_alerts = [], sent_messages = [],
       activePreview = preview_none \<rparr>"

definition ss_notes :: "Notification list \<Rightarrow> Notification list" where
  "ss_notes ns = filter (\<lambda>n. note_type n = Type_SCREENSHOTS) ns"

section \<open>Properties of the classifier\<close>

lemma length_filter_count_list:
  "length (filter (\<lambda>f. g f = v) xs) = count_list (map g xs) v"
  by (induction xs) auto

text \<open>
  C3: for every list of classified files the summary's integrity score is
  \<open>clamp(100 - 25 m - 5 s - 10 c - 2 p, 0, 100)\<close>, where \<open>m\<close>, \<open>s\<close>, \<open>c\<close> and \<open>p\<close> are the
  reported counts of malicious, suspicious, privacy-critical and privacy-sensitive files
  (each the number of files of the list at that level), and the status is \<open>alert\<close> when
  \<open>m > 0\<close>, otherwise \<open>warning\<close> when \<open>s > 0\<close>, otherwise \<open>protected\<close>.
\<close>

theorem getSecuritySummary_score_status:
  "integrityScore (getSecuritySummary files)
     = spec_clamp (100 - 25 * int (maliciousCount (getSecuritySummary files))
                       - 5 * int (suspiciousCount (getSecuritySummary files))
                       - 10 * int (criticalPrivacyCount (getSecuritySummary files))
                       - 2 * int (sensitivePrivacyCount (getSecuritySummary files))) 0 100
   \<and> status (getSecuritySummary files)
       = (if maliciousCount (getSecuritySummary files) > 0 then alert
          else if suspiciousCount (getSecuritySummary files) > 0 then warning else protected)
   \<and> maliciousCount (getSecuritySummary files) = count_list (map threatLevel files) (Some malicious)
   \<and> suspiciousCount (getSecuritySummary files) = count_list (map threatLevel files) (Some suspicious)
   \<and> criticalPrivacyCount (getSecuritySummary files) = count_list (map privacyLevel files) (Some critical)
   \<and> sensitivePrivacyCount (getSecuritySummary files) = count_list (map privacyLevel files) (Some sensitive)
   \<and> totalFiles (getSecuritySummary files) = length files"
  by (simp add: getSecuritySummary_def Let_def spec_clamp_def length_filter_count_list)

text \<open>
  C7: a file whose name matches at least one of the malicious patterns is classified
  \<open>malicious\<close>, whatever its extension and path.
\<close>

theorem analyzeThreatLevel_malicious:
  assumes "\<exists>p \<in> set MALICIOUS_PATTERNS. rx_test p (name file)"
  shows "analyzeThreatLevel file = malicious"
  using assms by (simp add: analyzeThreatLevel_def any_test_def list_ex_iff)

theorem analyzeThreatLevel_malicious_witness:
  "(\<exists>p \<in> set MALICIOUS_PATTERNS. rx_test p (name witness_file))
   \<and> analyzeThreatLevel witness_file = malicious"
proof -
  have h: "\<exists>p \<in> set MALICIOUS_PATTERNS. rx_test p (name witness_file)"
    by code_simp
  from analyzeThreatLevel_malicious [OF h] h show ?thesis by simp
qed

text \<open>
  C9: \<open>analyzeFiles\<close> returns a list of the same length in the same order; each element
  keeps every field of the input element at the same position other than the threat level,
  the privacy level, the threat type and the tags: the identifier, name, size, type,
  extension, modification time, folder and path, and the optional category, version and
  time of last opening.
\<close>

theorem analyzeFiles_frame:
  "length (analyzeFiles files) = length files
   \<and> map file_id (analyzeFiles files) = map file_id files
   \<and> map name (analyzeFiles files) = map name files
   \<and> map file_size (analyzeFiles files) = map file_size files
   \<and> map file_type (analyzeFiles files) = map file_type files
   \<and> map extension (analyzeFiles files) = map extension files
   \<and> map lastModified (analyzeFiles files) = map lastModified files
   \<and> map folder (analyzeFiles files) = map folder files
   \<and> map path (analyzeFiles files) = map path files
   \<and> map category (analyzeFiles files) = map category files
   \<and> map version (analyzeFiles files) = map version files
   \<and> map lastOpened (analyzeFiles files) = map lastOpened files
   \<and> map (\<lambda>f. f\<lparr>threatLevel := None, threatType := None, privacyLevel := None, tags := None\<rparr>)
         (analyzeFiles files)
       = map (\<lambda>f. f\<lparr>threatLevel := None, threatType := None, privacyLevel := None, tags := None\<rparr>)
           files"
  by (simp add: analyzeFiles_def comp_def)

section \<open>Properties of the holding areas\<close>

lemma startsWith_append_drop: "startsWith s p \<Longrightarrow> s = p @ drop (length p) s"
  by (induction s p rule: startsWith.induct) auto

lemma startsWith_append: "startsWith (p @ r) p"
  by (induction p) auto

lemma io_bind_Inr:
  "io_bind m f w = (Inr y, w') \<Longrightarrow> \<exists>x w1. m w = (Inr x, w1) \<and> f x w1 = (Inr y, w')"
  by (auto simp: io_bind_def split: prod.splits sum.splits)

lemma entry_name_Some: "entry_name dir p = Some n \<Longrightarrow> p = path_join dir n"
  unfolding entry_name_def path_join_def
  by (auto split: if_splits dest: startsWith_append_drop)

lemma in_map_filterD: "y \<in> set (List.map_filter f xs) \<Longrightarrow> \<exists>x \<in> set xs. f x = Some y"
  by (induction xs) (auto simp: map_filter_simps split: option.splits)

lemma readdirSync_exists:
  assumes "readdirSync dir w = (Inr names, w')" "n \<in> set names"
  shows "w' = w \<and> existsSync (path_join dir n) w"
proof -
  from assms have w: "w' = w"
    and names: "names = remdups (List.map_filter (entry_name dir) (map fst (nodes w)))"
    by (auto simp: readdirSync_def split: option.splits node.splits)
  from assms(2) names have "n \<in> set (List.map_filter (entry_name dir) (map fst (nodes w)))"
    by simp
  from in_map_filterD [OF this]
  have "\<exists>p. p \<in> set (map fst (nodes w)) \<and> entry_name dir p = Some n"
    by blast
  then obtain p where p: "p \<in> set (map fst (nodes w))" "entry_name dir p = Some n"
    by blast
  from p(2) have "p = path_join dir n" by (rule entry_name_Some)
  with p(1) have "map_of (nodes w) (path_join dir n) \<noteq> None"
    by (metis map_of_eq_None_iff set_map)
  with w show ?thesis by (simp add: existsSync_def)
qed

lemma list_loop_paired:
  assumes "list_loop h dir suffix names acc w = (Inr es, w')"
    and "\<forall>e \<in> set acc. paired h w e \<and> (\<exists>n \<in> N. heldPath e = path_join dir n)"
    and "set names \<subseteq> N"
  shows "w' = w \<and> (\<forall>e \<in> set es. paired h w e \<and> (\<exists>n \<in> N. heldPath e = path_join dir n))"
  using assms
proof (induction names arbitrary: acc)
  case Nil
  then show ?case by (simp add: io_return_def)
next
  case (Cons fname rest)
  show ?case
  proof (cases "endsWith fname ''.meta.json'' \<or> \<not> endsWith fname suffix
                \<or> \<not> existsSync (path_join dir (fname @ ''.meta.json'')) w")
    case True
    with Cons.prems have "list_loop h dir suffix rest acc w = (Inr es, w')"
      by (auto simp: Let_def split: if_splits)
    with Cons.IH [of acc] Cons.prems show ?thesis by simp
  next
    case False
    with Cons.prems(1) have run:
      "io_bind (readFileSync (path_join dir (fname @ ''.meta.json''))) (\<lambda>content.
         io_bind (parse_metadata h content) (\<lambda>metadata.
           list_loop h dir suffix rest
             (acc @ [\<lparr> entry_metadata = metadata, heldPath = path_join dir fname \<rparr>]))) w
       = (Inr es, w')"
      by (simp add: Let_def)
    from io_bind_Inr [OF run] obtain content w1 where
      rd: "readFileSync (path_join dir (fname @ ''.meta.json'')) w = (Inr content, w1)"
      and run2: "io_bind (parse_metadata h content) (\<lambda>metadata.
           list_loop h dir suffix rest
             (acc @ [\<lparr> entry_metadata = metadata, heldPath = path_join dir fname \<rparr>])) w1
         = (Inr es, w')"
      by blast
    from io_bind_Inr [OF run2] obtain m w2 where
      pm: "parse_metadata h content w1 = (Inr m, w2)"
      and run3: "list_loop h dir suffix rest
             (acc @ [\<lparr> entry_metadata = m, heldPath = path_join dir fname \<rparr>]) w2 = (Inr es, w')"
      by blast
    from rd have w1: "w1 = w"
      and fname: "map_of (nodes w) (path_join dir (fname @ ''.meta.json'')) = Some (File content)"
      by (auto simp: readFileSync_def split: option.splits node.splits)
    from pm have w2: "w2 = w1" and parse: "JSON_parse h content = Some m"
      by (auto simp: parse_metadata_def io_return_def io_throw_def split: option.splits)
    have "paired h w \<lparr> entry_metadata = m, heldPath = path_join dir fname \<rparr>"
      using fname parse by (simp add: paired_def path_join_def)
    with Cons.prems(2,3)
    have "\<forall>e \<in> set (acc @ [\<lparr> entry_metadata = m, heldPath = path_join dir fname \<rparr>]).
            paired h w e \<and> (\<exists>n \<in> N. heldPath e = path_join dir n)"
      by auto
    with Cons.IH [of "acc @ [\<lparr> entry_metadata = m, heldPath = path_join dir fname \<rparr>]"]
      run3 w1 w2 Cons.prems(3)
    show ?thesis by simp
  qed
qed

lemma mkdir_chain_grows:
  "mkdir_chain h qs al = (r, al') \<Longrightarrow>
     map_of al' q = map_of al q
     \<or> (q \<in> set qs \<and> map_of al q = None \<and> map_of al' q = Some Directory)"
proof (induction qs arbitrary: al)
  case Nil
  then show ?case by simp
next
  case (Cons x qs)
  show ?case
  proof (cases "map_of al x")
    case None
    show ?thesis
    proof (cases "mkdir_error h x")
      case None
      with Cons.prems \<open>map_of al x = None\<close>
      have "mkdir_chain h qs (AList.update x Directory al) = (r, al')" by simp
      from Cons.IH [OF this] \<open>map_of al x = None\<close> show ?thesis
        by (cases "q = x") (auto simp: update_conv')
    next
      case (Some e)
      with Cons.prems \<open>map_of al x = None\<close> show ?thesis by simp
    qed
  next
    case (Some n)
    show ?thesis
    proof (cases n)
      case (File b)
      with Cons.prems Some show ?thesis by simp
    next
      case Directory
      with Cons.prems Some have "mkdir_chain h qs al = (r, al')" by simp
      from Cons.IH [OF this] show ?thesis by auto
    qed
  qed
qed

lemma dir_chain_length: "q \<in> set (dir_chain d) \<Longrightarrow> length q \<le> length d"
  by (auto simp: dir_chain_def)

lemma mkdirSync_lookup:
  assumes "mkdirSync h d w = (r, w')"
  shows "rng_pos w' = rng_pos w \<and> trace w' = trace w @ [EvMkdir d]
       \<and> (\<forall>q. map_of (nodes w') q = map_of (nodes w) q
               \<or> (q \<in> set (dir_chain d) \<and> map_of (nodes w) q = None
                   \<and> map_of (nodes w') q = Some Directory))"
proof -
  obtain err al where ch: "mkdir_chain h (dir_chain d) (nodes w) = (err, al)"
    by (cases "mkdir_chain h (dir_chain d) (nodes w)")
  from assms ch have w': "w' = w\<lparr>trace := trace w @ [EvMkdir d], nodes := al\<rparr>"
    by (auto simp: mkdirSync_def Let_def emit_def split: option.splits)
  from mkdir_chain_grows [OF ch] w' show ?thesis by simp
qed

lemma getQuarantineDir_lookup:
  "getQuarantineDir h w = (r, w') \<Longrightarrow> dir_lookup (path_join (userData h) ''Quarantine'') w r w'"
proof -
  assume run: "getQuarantineDir h w = (r, w')"
  let ?d = "path_join (userData h) ''Quarantine''"
  show ?thesis
  proof (cases "existsSync ?d w")
    case True
    with run show ?thesis
      by (auto simp: getQuarantineDir_def Let_def io_return_def dir_lookup_def)
  next
    case False
    obtain r0 w0 where mk: "mkdirSync h ?d w = (r0, w0)" by (cases "mkdirSync h ?d w")
    from run False mk have "(r = Inr ?d \<and> (\<exists>u. r0 = Inr u) \<or> (\<exists>e. r = Inl e \<and> r0 = Inl e)) \<and> w' = w0"
      by (cases r0) (auto simp: getQuarantineDir_def Let_def io_bind_def io_return_def)
    with mkdirSync_lookup [OF mk] show ?thesis
      by (auto simp: dir_lookup_def)
  qed
qed

lemma getVaultDir_lookup:
  "getVaultDir h w = (r, w') \<Longrightarrow> dir_lookup (path_join (userData h) ''Vault'') w r w'"
proof -
  assume run: "getVaultDir h w = (r, w')"
  let ?d = "path_join (userData h) ''Vault''"
  show ?thesis
  proof (cases "existsSync ?d w")
    case True
    with run show ?thesis
      by (auto simp: getVaultDir_def Let_def io_return_def dir_lookup_def)
  next
    case False
    obtain r0 w0 where mk: "mkdirSync h ?d w = (r0, w0)" by (cases "mkdirSync h ?d w")
    from run False mk have "(r = Inr ?d \<and> (\<exists>u. r0 = Inr u) \<or> (\<exists>e. r = Inl e \<and> r0 = Inl e)) \<and> w' = w0"
      by (cases r0) (auto simp: getVaultDir_def Let_def io_bind_def io_return_def)
    with mkdirSync_lookup [OF mk] show ?thesis
      by (auto simp: dir_lookup_def)
  qed
qed

lemma dir_lookup_same:
  assumes "dir_lookup d w r w'" "length d < length q"
  shows "map_of (nodes w') q = map_of (nodes w) q"
proof -
  from assms(2) have "q \<notin> set (dir_chain d)"
    using dir_chain_length [of q d] by auto
  with assms(1) show ?thesis
    unfolding dir_lookup_def by blast
qed

lemma dir_lookup_file:
  assumes "dir_lookup d w r w'"
  shows "(map_of (nodes w') q = Some (File b)) = (map_of (nodes w) q = Some (File b))"
proof -
  from assms have "map_of (nodes w') q = map_of (nodes w) q
      \<or> (map_of (nodes w) q = None \<and> map_of (nodes w') q = Some Directory)"
    unfolding dir_lookup_def by blast
  then show ?thesis by auto
qed

lemma listing_paired:
  assumes getDir: "\<And>r w'. getDir w = (r, w') \<Longrightarrow> dir_lookup d w r w'"
    and e: "e \<in> set (fst (or_empty (io_bind getDir (\<lambda>dir.
                io_bind (readdirSync dir) (\<lambda>names. list_loop h dir suffix names []))) w))"
  shows "existsSync (heldPath e) w \<and> paired h w e"
proof -
  let ?m = "io_bind getDir (\<lambda>dir. io_bind (readdirSync dir) (\<lambda>names. list_loop h dir suffix names []))"
  from e obtain es w3 where run: "?m w = (Inr es, w3)" and mem: "e \<in> set es"
    by (auto simp: or_empty_def split: prod.splits sum.splits)
  from io_bind_Inr [OF run] obtain dir w1 where
    gd: "getDir w = (Inr dir, w1)"
    and run2: "io_bind (readdirSync dir) (\<lambda>names. list_loop h dir suffix names []) w1 = (Inr es, w3)"
    by blast
  from io_bind_Inr [OF run2] obtain names w2 where
    rd: "readdirSync dir w1 = (Inr names, w2)"
    and ll: "list_loop h dir suffix names [] w2 = (Inr es, w3)"
    by blast
  note lk = getDir [OF gd]
  from lk have dir: "dir = d" by (simp add: dir_lookup_def)
  have w2: "w2 = w1" using rd by (auto simp: readdirSync_def split: option.splits node.splits)
  from list_loop_paired [OF ll, of "set names"] mem
  obtain n where p: "paired h w2 e" and n: "n \<in> set names" "heldPath e = path_join dir n"
    by auto
  from readdirSync_exists [OF rd n(1)] n(2) w2 have ex1: "existsSync (heldPath e) w1"
    by simp
  have longer: "length d < length (heldPath e)" "length d < length (heldPath e @ ''.meta.json'')"
    using n(2) dir by (simp_all add: path_join_def)
  note same = dir_lookup_same [OF lk longer(1)] dir_lookup_same [OF lk longer(2)]
  with ex1 p w2 show ?thesis
    by (simp add: existsSync_def paired_def)
qed

lemma paired_exists: "paired h w e \<Longrightarrow> existsSync (heldPath e @ ''.meta.json'') w"
  by (auto simp: paired_def existsSync_def)

lemma char_byte: "char_of (unat (of_nat (of_char c) :: 8 word)) = c"
  by (simp add: unat_of_nat)

lemma dec_enc_str: "dec_str (enc_str s @ r) = Some (s, r)"
proof (induction s)
  case Nil
  then show ?case by (cases r) (simp_all add: enc_str_def)
next
  case (Cons c s)
  then show ?case by (simp add: enc_str_def char_byte)
qed

lemma dec_enc_opt: "dec_opt (enc_opt x @ r) = Some (x, r)"
  by (cases x) (simp_all add: dec_opt_def enc_opt_def dec_enc_str)

lemma sample_roundtrip: "sample_parse (sample_stringify m) = Some (m :: metadata)"
  using dec_enc_str [of "sha256 m" "[]"]
  by (simp add: sample_parse_def sample_stringify_def dec_enc_str dec_enc_opt)

text \<open>
  C8: whatever the state of the holding directories, a listing (of the quarantine or of the
  vault) surfaces an entry only when the held content and its side-record both exist, the
  side-record being a regular file that parses to the entry's metadata; a content path whose
  side-record is missing is in no listing.
\<close>

theorem listing_surfaces_only_pairs:
  "(\<forall>e \<in> set (fst (fs_list_quarantine h w)) \<union> set (fst (fs_list_vault h w)).
      existsSync (heldPath e) w
      \<and> (\<exists>b. map_of (nodes w) (heldPath e @ ''.meta.json'') = Some (File b)
               \<and> JSON_parse h b = Some (entry_metadata e)))
   \<and> (\<forall>p. existsSync p w \<and> \<not> existsSync (p @ ''.meta.json'') w \<longrightarrow>
          p \<notin> heldPath ` (set (fst (fs_list_quarantine h w)) \<union> set (fst (fs_list_vault h w))))"
proof -
  have q: "existsSync (heldPath e) w \<and> paired h w e"
    if "e \<in> set (fst (fs_list_quarantine h w))" for e
    using that unfolding fs_list_quarantine_def
    by (rule listing_paired [rotated]) (rule getQuarantineDir_lookup)
  have v: "existsSync (heldPath e) w \<and> paired h w e"
    if "e \<in> set (fst (fs_list_vault h w))" for e
    using that unfolding fs_list_vault_def
    by (rule listing_paired [rotated]) (rule getVaultDir_lookup)
  from q v have all: "existsSync (heldPath e) w \<and> paired h w e"
    if "e \<in> set (fst (fs_list_quarantine h w)) \<union> set (fst (fs_list_vault h w))" for e
    using that by blast
  show ?thesis
  proof (intro conjI ballI allI impI)
    fix e assume "e \<in> set (fst (fs_list_quarantine h w)) \<union> set (fst (fs_list_vault h w))"
    from all [OF this] show "existsSync (heldPath e) w" by simp
  next
    fix e assume "e \<in> set (fst (fs_list_quarantine h w)) \<union> set (fst (fs_list_vault h w))"
    from all [OF this]
    show "\<exists>b. map_of (nodes w) (heldPath e @ ''.meta.json'') = Some (File b)
               \<and> JSON_parse h b = Some (entry_metadata e)"
      by (simp add: paired_def)
  next
    fix p assume p: "existsSync p w \<and> \<not> existsSync (p @ ''.meta.json'') w"
    show "p \<notin> heldPath ` (set (fst (fs_list_quarantine h w)) \<union> set (fst (fs_list_vault h w)))"
    proof
      assume "p \<in> heldPath ` (set (fst (fs_list_quarantine h w)) \<union> set (fst (fs_list_vault h w)))"
      then obtain e where "e \<in> set (fst (fs_list_quarantine h w)) \<union> set (fst (fs_list_vault h w))"
        and "p = heldPath e" by blast
      with all [of e] paired_exists [of h w e] p show False by simp
    qed
  qed
qed

theorem listing_surfaces_only_pairs_witness:
  "\<lparr> entry_metadata = sample_metadata, heldPath = ''/data/Quarantine/17_a.txt.quarantined'' \<rparr>
     \<in> set (fst (fs_list_quarantine sample_host holding_world))
         \<union> set (fst (fs_list_vault sample_host holding_world))
   \<and> existsSync ''/data/Quarantine/17_a.txt.quarantined'' holding_world
   \<and> existsSync ''/data/Quarantine/17_a.txt.quarantined.meta.json'' holding_world
   \<and> existsSync ''/data/Quarantine/18_b.txt.quarantined'' holding_world
   \<and> \<not> existsSync (''/data/Quarantine/18_b.txt.quarantined'' @ ''.meta.json'') holding_world
   \<and> ''/data/Quarantine/18_b.txt.quarantined''
       \<notin> heldPath ` (set (fst (fs_list_quarantine sample_host holding_world))
                       \<union> set (fst (fs_list_vault sample_host holding_world)))"
proof -
  let ?e = "\<lparr> entry_metadata = sample_metadata,
               heldPath = ''/data/Quarantine/17_a.txt.quarantined'' \<rparr>"
  have mem: "?e \<in> set (fst (fs_list_quarantine sample_host holding_world))
                 \<union> set (fst (fs_list_vault sample_host holding_world))"
    by code_simp
  have orphan: "existsSync ''/data/Quarantine/18_b.txt.quarantined'' holding_world
      \<and> \<not> existsSync (''/data/Quarantine/18_b.txt.quarantined'' @ ''.meta.json'') holding_world"
    by code_simp
  have meta: "existsSync ''/data/Quarantine/17_a.txt.quarantined.meta.json'' holding_world"
    by code_simp
  note pairs = listing_surfaces_only_pairs [of sample_host holding_world]
  from pairs mem have "existsSync (heldPath ?e) holding_world"
    by blast
  then have content: "existsSync ''/data/Quarantine/17_a.txt.quarantined'' holding_world"
    by simp
  from pairs orphan
  have hidden: "''/data/Quarantine/18_b.txt.quarantined''
       \<notin> heldPath ` (set (fst (fs_list_quarantine sample_host holding_world))
                       \<union> set (fst (fs_list_vault sample_host holding_world)))"
    by blast
  from mem content meta orphan hidden show ?thesis
    by (intro conjI) (erule conjunct1 conjunct2 | assumption)+
qed

lemma fs_quarantine_place:
  "fs_quarantine h ts isoNow filePath r
     = place_file h (getQuarantineDir h) ''.quarantined'' (\<lambda>m. m\<lparr>quarantinedAt := Some isoNow\<rparr>) ts filePath r"
  by (simp add: fs_quarantine_def place_file_def place_tail_def Let_def)

lemma fs_vault_place:
  "fs_vault h ts isoNow filePath r
     = place_file h (getVaultDir h) ''.vault'' (\<lambda>m. m\<lparr>vaultedAt := Some isoNow\<rparr>) ts filePath r"
  by (simp add: fs_vault_def place_file_def place_tail_def Let_def)

lemma fs_unvault_restore: "fs_unvault h p = fs_restore h p"
  by (simp add: fs_unvault_def fs_restore_def)

lemma sep_notin_basename: "sep \<notin> set (basename p)"
  by (auto simp: basename_def dest: set_takeWhileD)

lemma basename_suffix_length:
  assumes "b \<noteq> []" "sep \<notin> set b"
  shows "length b \<le> length (basename (a @ b))"
proof -
  from assms have "rev b \<noteq> []" by simp
  moreover from assms have "hd (rev b) \<noteq> sep"
    by (metis hd_rev last_in_set)
  ultimately
  have "dropWhile (\<lambda>c. c = sep) (rev b @ rev a) = rev b @ rev a"
    by (cases "rev b") auto
  moreover have "takeWhile (\<lambda>c. c \<noteq> sep) (rev b @ rev a)
                   = rev b @ takeWhile (\<lambda>c. c \<noteq> sep) (rev a)"
    using assms(2) by (intro takeWhile_append2) auto
  ultimately show ?thesis by (simp add: basename_def)
qed

lemma held_path_fresh:
  assumes "sep \<notin> set suffix" "sep \<notin> set extra"
  shows "path_join dir (ts @ ''_'' @ basename filePath @ suffix) @ extra \<noteq> filePath"
proof
  assume eq: "path_join dir (ts @ ''_'' @ basename filePath @ suffix) @ extra = filePath"
  let ?b = "''_'' @ basename filePath @ suffix @ extra"
  have "sep \<notin> set ?b" "?b \<noteq> []"
    using assms sep_notin_basename [of filePath] by (auto simp: sep_def)
  from basename_suffix_length [OF this(2) this(1), of "dir @ [sep] @ ts"]
  have "length ?b \<le> length (basename ((dir @ [sep] @ ts) @ ?b))" .
  also have "(dir @ [sep] @ ts) @ ?b = filePath"
    using eq by (simp add: path_join_def)
  finally show False by simp
qed

lemma getFileHash_Inr:
  assumes "getFileHash h p w = (Inr d, w')"
  shows "\<exists>b. map_of (nodes w) p = Some (File b) \<and> stream_error h p = None
           \<and> d = sha256_hex h b \<and> w' = emit (EvHash p) w"
  using assms by (auto simp: getFileHash_def Let_def emit_def split: option.splits node.splits)

lemma renameSync_File:
  assumes "renameSync src dst w = (Inr u, w')" "map_of (nodes w) src = Some (File b)" "src \<noteq> dst"
  shows "w' = (emit (EvRename src dst) w)\<lparr>nodes := AList.update dst (File b) (AList.delete src (nodes w))\<rparr>"
  using assms by (auto simp: renameSync_def Let_def emit_def split: if_splits)

lemma writeFileSync_Inr:
  assumes "writeFileSync p data w = (Inr u, w')"
  shows "w' = (emit (EvWrite p data) w)\<lparr>nodes := AList.update p (File data) (nodes w)\<rparr>"
  using assms by (auto simp: writeFileSync_def Let_def emit_def split: option.splits node.splits)

text \<open>What a successful placement did.\<close>

lemma place_file_Inr:
  assumes getDir: "\<And>x w'. getDir w = (x, w') \<Longrightarrow> dir_lookup d w x w'"
    and run: "place_file h getDir suffix stamp ts filePath r w = (Inr held, w')"
    and suffix: "sep \<notin> set suffix"
  shows "\<exists>b (w0 :: world). map_of (nodes w) filePath = Some (File b)
           \<and> held = path_join d (string_of_int ts @ ''_'' @ basename filePath @ suffix)
           \<and> stream_error h filePath = None
           \<and> nodes w' = AList.update (held @ ''.meta.json'')
                 (File (JSON_stringify h
                    (stamp \<lparr> originalPath = filePath, originalName = basename filePath,
                              quarantinedAt = None, vaultedAt = None,
                              reason = r, sha256 = sha256_hex h b \<rparr>)))
                 (AList.update held (File b) (AList.delete filePath (nodes w0)))"
proof -
  let ?held = "path_join d (string_of_int ts @ ''_'' @ basename filePath @ suffix)"
  from io_bind_Inr [OF run [unfolded place_file_def]] obtain dir w0 where
    gd: "getDir w = (Inr dir, w0)"
    and run1: "place_tail h (path_join dir (string_of_int ts @ ''_'' @ basename filePath @ suffix))
                 stamp filePath r dir w0 = (Inr held, w')"
    by blast
  note lk = getDir [OF gd]
  from lk have dir: "dir = d" by (simp add: dir_lookup_def)
  from io_bind_Inr [OF run1 [unfolded place_tail_def dir]] obtain digest w1 where
    gh: "getFileHash h filePath w0 = (Inr digest, w1)"
    and run2: "io_bind (renameSync filePath ?held) (\<lambda>_.
           io_bind (writeFileSync (?held @ ''.meta.json'')
                      (JSON_stringify h
                         (stamp \<lparr> originalPath = filePath, originalName = basename filePath,
                                   quarantinedAt = None, vaultedAt = None,
                                   reason = r, sha256 = digest \<rparr>))) (\<lambda>_.
             io_return ?held)) w1 = (Inr held, w')"
    by blast
  from getFileHash_Inr [OF gh] obtain b where
    b0: "map_of (nodes w0) filePath = Some (File b)" and digest: "digest = sha256_hex h b"
    and readable: "stream_error h filePath = None"
    and w1: "w1 = emit (EvHash filePath) w0"
    by blast
  from io_bind_Inr [OF run2] obtain u w2 where
    rn: "renameSync filePath ?held w1 = (Inr u, w2)"
    and run3: "io_bind (writeFileSync (?held @ ''.meta.json'')
                      (JSON_stringify h
                         (stamp \<lparr> originalPath = filePath, originalName = basename filePath,
                                   quarantinedAt = None, vaultedAt = None,
                                   reason = r, sha256 = digest \<rparr>))) (\<lambda>_.
             io_return ?held) w2 = (Inr held, w')"
    by blast
  from io_bind_Inr [OF run3] obtain u' w3 where
    wr: "writeFileSync (?held @ ''.meta.json'')
                      (JSON_stringify h
                         (stamp \<lparr> originalPath = filePath, originalName = basename filePath,
                                   quarantinedAt = None, vaultedAt = None,
                                   reason = r, sha256 = digest \<rparr>)) w2 = (Inr u', w3)"
    and ret: "io_return ?held w3 = (Inr held, w')"
    by blast
  from ret have held: "held = ?held" and w': "w' = w3" by (auto simp: io_return_def)
  have fresh: "filePath \<noteq> ?held"
    using held_path_fresh [OF suffix, of "[]" d "string_of_int ts" filePath] by auto
  have b1: "map_of (nodes w1) filePath = Some (File b)" using b0 w1 by (simp add: emit_def)
  note w2 = renameSync_File [OF rn b1 fresh]
  note w3 = writeFileSync_Inr [OF wr]
  have bw: "map_of (nodes w) filePath = Some (File b)"
    using dir_lookup_file [OF lk] b0 by simp
  have "nodes w' = AList.update (held @ ''.meta.json'')
                 (File (JSON_stringify h
                    (stamp \<lparr> originalPath = filePath, originalName = basename filePath,
                              quarantinedAt = None, vaultedAt = None,
                              reason = r, sha256 = sha256_hex h b \<rparr>)))
                 (AList.update held (File b) (AList.delete filePath (nodes w0)))"
    using held w' w3 w2 w1 digest by (simp add: emit_def)
  with bw held readable show ?thesis by blast
qed

lemma restore_after_place:
  assumes json: "\<forall>m. JSON_parse h (JSON_stringify h m) = Some m"
    and orig: "originalPath m = filePath"
    and nodes: "nodes w1 = AList.update (held @ ''.meta.json'') (File (JSON_stringify h m))
                 (AList.update held (File b) (AList.delete filePath al))"
    and fresh: "held \<noteq> filePath" "held @ ''.meta.json'' \<noteq> filePath"
  shows "\<exists>w2. fs_restore h held w1 = (Inr filePath, w2)
           \<and> map_of (nodes w2) filePath = Some (File b)
           \<and> map_of (nodes w2) held = None
           \<and> map_of (nodes w2) (held @ ''.meta.json'') = None
           \<and> trace w2 = trace w1 @ [EvRename held filePath, EvUnlink (held @ ''.meta.json'')]"
proof -
  let ?mp = "held @ ''.meta.json''"
  have mp_held: "?mp \<noteq> held" by simp
  have rd: "readFileSync ?mp w1 = (Inr (JSON_stringify h m), w1)"
    by (simp add: readFileSync_def nodes update_conv')
  have pm: "parse_metadata h (JSON_stringify h m) w1 = (Inr m, w1)"
    using json by (simp add: parse_metadata_def io_return_def)
  let ?w2 = "(emit (EvRename held filePath) w1)
               \<lparr>nodes := AList.update filePath (File b) (AList.delete held (nodes w1))\<rparr>"
  have src: "map_of (nodes w1) held = Some (File b)"
    using mp_held by (simp add: nodes update_conv')
  have dst: "map_of (nodes w1) filePath = None"
    using fresh by (simp add: nodes update_conv' delete_conv')
  have rn: "renameSync held filePath w1 = (Inr (), ?w2)"
    using src dst fresh by (simp add: renameSync_def Let_def emit_def)
  have mp2: "map_of (nodes ?w2) ?mp = Some (File (JSON_stringify h m))"
    using fresh mp_held by (simp add: emit_def nodes update_conv' delete_conv')
  let ?w3 = "(emit (EvUnlink ?mp) ?w2)\<lparr>nodes := AList.delete ?mp (nodes ?w2)\<rparr>"
  have ul: "unlinkSync ?mp ?w2 = (Inr (), ?w3)"
    using mp2 by (simp add: unlinkSync_def Let_def emit_def)
  have run: "fs_restore h held w1 = (Inr filePath, ?w3)"
    unfolding fs_restore_def Let_def
    by (simp add: io_bind_def rd pm rn ul orig io_return_def)
  have "map_of (nodes ?w3) filePath = Some (File b)"
    using fresh by (simp add: emit_def update_conv' delete_conv')
  moreover have "map_of (nodes ?w3) held = None"
    using fresh mp_held by (simp add: emit_def update_conv' delete_conv')
  moreover have "map_of (nodes ?w3) ?mp = None"
    by (simp add: emit_def delete_conv')
  moreover have "trace ?w3 = trace w1 @ [EvRename held filePath, EvUnlink ?mp]"
    by (simp add: emit_def)
  ultimately show ?thesis using run by blast
qed

lemma place_restore_generic:
  assumes getDir: "\<And>x w'. getDir w = (x, w') \<Longrightarrow> dir_lookup d w x w'"
    and run: "place_file h getDir suffix stamp ts filePath r w = (Inr held, w1)"
    and suffix: "sep \<notin> set suffix"
    and stamp: "\<And>m. originalPath (stamp m) = originalPath m \<and> sha256 (stamp m) = sha256 m"
    and json: "\<forall>m. JSON_parse h (JSON_stringify h m) = Some m"
  shows "\<exists>b m w2.
           map_of (nodes w) filePath = Some (File b)
         \<and> map_of (nodes w1) (held @ ''.meta.json'') = Some (File (JSON_stringify h m))
         \<and> originalPath m = filePath \<and> sha256 m = sha256_hex h b
         \<and> fs_restore h held w1 = (Inr filePath, w2)
         \<and> map_of (nodes w2) filePath = Some (File b)
         \<and> fst (getFileHash h filePath w2) = Inr (sha256 m)
         \<and> \<not> existsSync held w2 \<and> \<not> existsSync (held @ ''.meta.json'') w2"
proof -
  have "\<exists>b (w0 :: world). map_of (nodes w) filePath = Some (File b)
           \<and> held = path_join d (string_of_int ts @ ''_'' @ basename filePath @ suffix)
           \<and> stream_error h filePath = None
           \<and> nodes w1 = AList.update (held @ ''.meta.json'')
                 (File (JSON_stringify h
                    (stamp \<lparr> originalPath = filePath, originalName = basename filePath,
                              quarantinedAt = None, vaultedAt = None,
                              reason = r, sha256 = sha256_hex h b \<rparr>)))
                 (AList.update held (File b) (AList.delete filePath (nodes w0)))"
    by (rule place_file_Inr [OF _ run suffix]) (rule getDir, assumption)
  then obtain b and w0 :: world where big:
    "map_of (nodes w) filePath = Some (File b)
           \<and> held = path_join d (string_of_int ts @ ''_'' @ basename filePath @ suffix)
           \<and> stream_error h filePath = None
           \<and> nodes w1 = AList.update (held @ ''.meta.json'')
                 (File (JSON_stringify h
                    (stamp \<lparr> originalPath = filePath, originalName = basename filePath,
                              quarantinedAt = None, vaultedAt = None,
                              reason = r, sha256 = sha256_hex h b \<rparr>)))
                 (AList.update held (File b) (AList.delete filePath (nodes w0)))"
    by (elim exE)
  note b = big [THEN conjunct1]
  note held = big [THEN conjunct2, THEN conjunct1]
  note readable = big [THEN conjunct2, THEN conjunct2, THEN conjunct1]
  note nodes = big [THEN conjunct2, THEN conjunct2, THEN conjunct2]
  let ?m = "stamp \<lparr> originalPath = filePath, originalName = basename filePath,
                              quarantinedAt = None, vaultedAt = None,
                              reason = r, sha256 = sha256_hex h b \<rparr>"
  have m: "originalPath ?m = filePath" "sha256 ?m = sha256_hex h b"
    using stamp by simp_all
  have fresh: "held \<noteq> filePath" "held @ ''.meta.json'' \<noteq> filePath"
    using held_path_fresh [OF suffix, of "[]" d "string_of_int ts" filePath]
      held_path_fresh [OF suffix, of "''.meta.json''" d "string_of_int ts" filePath]
    unfolding held by (auto simp: sep_def)
  from restore_after_place [OF json m(1) nodes fresh] obtain w2 where
    w2: "fs_restore h held w1 = (Inr filePath, w2)"
      "map_of (nodes w2) filePath = Some (File b)"
      "map_of (nodes w2) held = None"
      "map_of (nodes w2) (held @ ''.meta.json'') = None"
    by blast
  have "map_of (nodes w1) (held @ ''.meta.json'') = Some (File (JSON_stringify h ?m))"
    by (simp add: nodes update_conv')
  moreover have "fst (getFileHash h filePath w2) = Inr (sha256 ?m)"
    using w2(2) m(2) readable by (simp add: getFileHash_def Let_def emit_def)
  ultimately show ?thesis
    using b m w2 by (auto simp: existsSync_def)
qed

text \<open>
  C1: when a file was placed into holding by the quarantine or the vault handler, restoring
  the entry succeeds and yields, at the original path, a regular file with the content the
  file had at place time; its digest is the digest the side-record captured at place time,
  and the held content and the side-record are gone. (The serialisation of side-records is
  assumed to parse back to what was written.)
\<close>

theorem place_restore_roundtrip:
  assumes json: "\<forall>m. JSON_parse h (JSON_stringify h m) = Some m"
    and placed: "fs_quarantine h ts isoNow filePath r w = (Inr held, w1)
                 \<or> fs_vault h ts isoNow filePath r w = (Inr held, w1)"
  shows "\<exists>b m w2.
           map_of (nodes w) filePath = Some (File b)
         \<and> map_of (nodes w1) (held @ ''.meta.json'') = Some (File (JSON_stringify h m))
         \<and> originalPath m = filePath \<and> sha256 m = sha256_hex h b
         \<and> fs_restore h held w1 = (Inr filePath, w2)
         \<and> fs_unvault h held w1 = (Inr filePath, w2)
         \<and> map_of (nodes w2) filePath = Some (File b)
         \<and> fst (getFileHash h filePath w2) = Inr (sha256 m)
         \<and> \<not> existsSync held w2 \<and> \<not> existsSync (held @ ''.meta.json'') w2"
  using placed
proof
  assume "fs_quarantine h ts isoNow filePath r w = (Inr held, w1)"
  then have "place_file h (getQuarantineDir h) ''.quarantined''
               (\<lambda>m. m\<lparr>quarantinedAt := Some isoNow\<rparr>) ts filePath r w = (Inr held, w1)"
    by (simp add: fs_quarantine_place)
  then have "\<exists>b m w2.
           map_of (nodes w) filePath = Some (File b)
         \<and> map_of (nodes w1) (held @ ''.meta.json'') = Some (File (JSON_stringify h m))
         \<and> originalPath m = filePath \<and> sha256 m = sha256_hex h b
         \<and> fs_restore h held w1 = (Inr filePath, w2)
         \<and> map_of (nodes w2) filePath = Some (File b)
         \<and> fst (getFileHash h filePath w2) = Inr (sha256 m)
         \<and> \<not> existsSync held w2 \<and> \<not> existsSync (held @ ''.meta.json'') w2"
    by (rule place_restore_generic [rotated, where d = "path_join (userData h) ''Quarantine''"])
      (simp_all add: sep_def json getQuarantineDir_lookup)
  then show ?thesis by (simp add: fs_unvault_restore)
next
  assume "fs_vault h ts isoNow filePath r w = (Inr held, w1)"
  then have "place_file h (getVaultDir h) ''.vault''
               (\<lambda>m. m\<lparr>vaultedAt := Some isoNow\<rparr>) ts filePath r w = (Inr held, w1)"
    by (simp add: fs_vault_place)
  then have "\<exists>b m w2.
           map_of (nodes w) filePath = Some (File b)
         \<and> map_of (nodes w1) (held @ ''.meta.json'') = Some (File (JSON_stringify h m))
         \<and> originalPath m = filePath \<and> sha256 m = sha256_hex h b
         \<and> fs_restore h held w1 = (Inr filePath, w2)
         \<and> map_of (nodes w2) filePath = Some (File b)
         \<and> fst (getFileHash h filePath w2) = Inr (sha256 m)
         \<and> \<not> existsSync held w2 \<and> \<not> existsSync (held @ ''.meta.json'') w2"
    by (rule place_restore_generic [rotated, where d = "path_join (userData h) ''Vault''"])
      (simp_all add: sep_def json getVaultDir_lookup)
  then show ?thesis by (simp add: fs_unvault_restore)
qed

theorem place_restore_roundtrip_witness:
  "fst (fs_quarantine sample_host 1700000000000 ''2023-11-14T22:13:20.000Z''
          ''/home/u/a.txt'' (Some ''flagged'') home_world)
     = Inr ''/data/Quarantine/1700000000000_a.txt.quarantined''
   \<and> (\<exists>b m w2.
         map_of (nodes home_world) ''/home/u/a.txt'' = Some (File b)
       \<and> map_of (nodes (snd (fs_quarantine sample_host 1700000000000 ''2023-11-14T22:13:20.000Z''
                               ''/home/u/a.txt'' (Some ''flagged'') home_world)))
             (''/data/Quarantine/1700000000000_a.txt.quarantined'' @ ''.meta.json'')
           = Some (File (JSON_stringify sample_host m))
       \<and> originalPath m = ''/home/u/a.txt'' \<and> sha256 m = sha256_hex sample_host b
       \<and> fs_restore sample_host ''/data/Quarantine/1700000000000_a.txt.quarantined''
             (snd (fs_quarantine sample_host 1700000000000 ''2023-11-14T22:13:20.000Z''
                     ''/home/u/a.txt'' (Some ''flagged'') home_world))
           = (Inr ''/home/u/a.txt'', w2)
       \<and> fs_unvault sample_host ''/data/Quarantine/1700000000000_a.txt.quarantined''
             (snd (fs_quarantine sample_host 1700000000000 ''2023-11-14T22:13:20.000Z''
                     ''/home/u/a.txt'' (Some ''flagged'') home_world))
           = (Inr ''/home/u/a.txt'', w2)
       \<and> map_of (nodes w2) ''/home/u/a.txt'' = Some (File b)
       \<and> fst (getFileHash sample_host ''/home/u/a.txt'' w2) = Inr (sha256 m)
       \<and> \<not> existsSync ''/data/Quarantine/1700000000000_a.txt.quarantined'' w2
       \<and> \<not> existsSync (''/data/Quarantine/1700000000000_a.txt.quarantined'' @ ''.meta.json'') w2)"
proof -
  let ?run = "fs_quarantine sample_host 1700000000000 ''2023-11-14T22:13:20.000Z''
                ''/home/u/a.txt'' (Some ''flagged'') home_world"
  let ?held = "''/data/Quarantine/1700000000000_a.txt.quarantined''"
  have held: "fst ?run = Inr ?held"
    by code_simp
  then have placed: "?run = (Inr ?held, snd ?run)
      \<or> fs_vault sample_host 1700000000000 ''2023-11-14T22:13:20.000Z''
           ''/home/u/a.txt'' (Some ''flagged'') home_world = (Inr ?held, snd ?run)"
    by (metis prod.collapse)
  have json: "\<forall>m. JSON_parse sample_host (JSON_stringify sample_host m) = Some m"
    by (simp add: sample_host_def sample_roundtrip)
  from place_restore_roundtrip [OF json placed] held show ?thesis
    by (intro conjI)
qed

lemma place_tail_trace:
  assumes "place_tail h held stamp filePath r d w0 = (res, w1)" "filePath \<noteq> held"
  shows "(\<exists>rest. trace w1 = trace w0 @ [EvHash filePath] @ rest
            \<and> (rest = [] \<or> rest = [EvRename filePath held]
                \<or> (\<exists>data. rest = [EvRename filePath held, EvWrite (held @ ''.meta.json'') data])))
         \<and> (\<forall>e. fst (getFileHash h filePath w0) = Inl e \<longrightarrow>
               res = Inl e \<and> w1 = emit (EvHash filePath) w0)"
  using assms unfolding place_tail_def io_bind_def getFileHash_def renameSync_def writeFileSync_def
    io_return_def Let_def emit_def
  by (auto split: option.splits node.splits if_splits prod.splits sum.splits)

lemma place_file_trace:
  assumes getDir: "\<And>x w'. getDir w = (x, w') \<Longrightarrow> dir_lookup d w x w'"
    and run: "place_file h getDir suffix stamp ts filePath r w = (res, w1)"
    and suffix: "sep \<notin> set suffix"
  shows "\<exists>r0 w0.
           getDir w = (r0, w0)
         \<and> (\<forall>q. map_of (nodes w0) q = map_of (nodes w) q
                 \<or> (q \<in> set (dir_chain d) \<and> map_of (nodes w) q = None
                     \<and> map_of (nodes w0) q = Some Directory))
         \<and> (r0 = Inr d \<or> (\<exists>e. r0 = Inl e))
         \<and> (\<forall>e. r0 = Inl e \<longrightarrow>
                res = Inl e \<and> w1 = w0 \<and> trace w1 = trace w @ [EvMkdir d])
         \<and> (r0 = Inr d \<longrightarrow>
                (trace w0 = trace w \<or> trace w0 = trace w @ [EvMkdir d])
              \<and> (\<exists>rest. trace w1 = trace w0 @ [EvHash filePath] @ rest
                     \<and> (rest = [] \<or> (\<exists>held. rest = [EvRename filePath held])
                         \<or> (\<exists>held data. rest = [EvRename filePath held,
                                                      EvWrite (held @ ''.meta.json'') data])))
              \<and> (\<forall>e. fst (getFileHash h filePath w0) = Inl e \<longrightarrow>
                     res = Inl e \<and> trace w1 = trace w0 @ [EvHash filePath] \<and> nodes w1 = nodes w0
                     \<and> (\<forall>p b. (map_of (nodes w1) p = Some (File b))
                               = (map_of (nodes w) p = Some (File b)))))"
proof -
  let ?held = "path_join d (string_of_int ts @ ''_'' @ basename filePath @ suffix)"
  obtain r0 w0 where gd: "getDir w = (r0, w0)" by (cases "getDir w")
  note lk = getDir [OF gd]
  from lk have grow: "\<forall>q. map_of (nodes w0) q = map_of (nodes w) q
                 \<or> (q \<in> set (dir_chain d) \<and> map_of (nodes w) q = None
                     \<and> map_of (nodes w0) q = Some Directory)"
    by (simp add: dir_lookup_def)
  from lk have cases: "r0 = Inr d \<or> (\<exists>e. r0 = Inl e)"
    by (cases r0) (simp_all add: dir_lookup_def)
  have failed: "res = Inl e \<and> w1 = w0 \<and> trace w1 = trace w @ [EvMkdir d]"
    if "r0 = Inl e" for e
    using that lk run gd by (simp add: dir_lookup_def place_file_def io_bind_def)
  have found: "(trace w0 = trace w \<or> trace w0 = trace w @ [EvMkdir d])
              \<and> (\<exists>rest. trace w1 = trace w0 @ [EvHash filePath] @ rest
                     \<and> (rest = [] \<or> (\<exists>held. rest = [EvRename filePath held])
                         \<or> (\<exists>held data. rest = [EvRename filePath held,
                                                      EvWrite (held @ ''.meta.json'') data])))
              \<and> (\<forall>e. fst (getFileHash h filePath w0) = Inl e \<longrightarrow>
                     res = Inl e \<and> trace w1 = trace w0 @ [EvHash filePath] \<and> nodes w1 = nodes w0
                     \<and> (\<forall>p b. (map_of (nodes w1) p = Some (File b))
                               = (map_of (nodes w) p = Some (File b))))"
    if r0: "r0 = Inr d"
  proof -
    from run gd r0 have tail: "place_tail h ?held stamp filePath r d w0 = (res, w1)"
      by (simp add: place_file_def io_bind_def)
    have fresh: "filePath \<noteq> ?held"
      using held_path_fresh [OF suffix, of "[]" d "string_of_int ts" filePath] by auto
    note tl = place_tail_trace [OF tail fresh]
    from lk r0 have tr: "trace w0 = trace w \<or> trace w0 = trace w @ [EvMkdir d]"
      by (simp add: dir_lookup_def)
    from tl have shape: "\<exists>rest. trace w1 = trace w0 @ [EvHash filePath] @ rest
                     \<and> (rest = [] \<or> (\<exists>held. rest = [EvRename filePath held])
                         \<or> (\<exists>held data. rest = [EvRename filePath held,
                                                      EvWrite (held @ ''.meta.json'') data]))"
      by blast
    have fail: "res = Inl e \<and> trace w1 = trace w0 @ [EvHash filePath] \<and> nodes w1 = nodes w0
                     \<and> (\<forall>p b. (map_of (nodes w1) p = Some (File b))
                               = (map_of (nodes w) p = Some (File b)))"
      if "fst (getFileHash h filePath w0) = Inl e" for e
    proof -
      from tl that have "res = Inl e" "w1 = emit (EvHash filePath) w0" by auto
      then show ?thesis
        using dir_lookup_file [OF lk] by (simp add: emit_def)
    qed
    from tr shape fail show ?thesis by blast
  qed
  from gd grow cases failed found show ?thesis by blast
qed

text \<open>
  C4, as stated, fails: quarantining a path that does not exist, on a first run where neither
  the data directory nor the quarantine directory exists yet, reports failure after the
  directory lookup has created both directories, so the file system has changed although
  the digest computation failed.
\<close>

theorem place_failure_creates_directory:
  "fst (fs_quarantine sample_host 1700000000000 ''2023-11-14T22:13:20.000Z''
          ''/home/u/missing.txt'' None home_world) = Inl ENOENT
   \<and> fst (getFileHash sample_host ''/home/u/missing.txt''
            (snd (getQuarantineDir sample_host home_world))) = Inl ENOENT
   \<and> \<not> existsSync ''/data'' home_world
   \<and> \<not> existsSync ''/data/Quarantine'' home_world
   \<and> map_of (nodes (snd (fs_quarantine sample_host 1700000000000 ''2023-11-14T22:13:20.000Z''
          ''/home/u/missing.txt'' None home_world))) ''/data'' = Some Directory
   \<and> map_of (nodes (snd (fs_quarantine sample_host 1700000000000 ''2023-11-14T22:13:20.000Z''
          ''/home/u/missing.txt'' None home_world))) ''/data/Quarantine'' = Some Directory
   \<and> nodes (snd (fs_quarantine sample_host 1700000000000 ''2023-11-14T22:13:20.000Z''
          ''/home/u/missing.txt'' None home_world)) \<noteq> nodes home_world"
  by code_simp

text \<open>
  C4, as amended. In every run of the quarantine or the vault handler only the lookup of the
  holding directory precedes the digest computation. The lookup changes the file system at
  most by creating directories that were missing, each the holding directory or one of its
  ancestors. When the lookup throws, the handler reports that failure and nothing is hashed,
  moved or written. When it returns, the digest computation is the next effect, and the
  rename and the write of the side-record follow it in that order, if they happen. When the
  digest computation fails (the path is missing, is a directory, or is a regular file whose
  read stream ends with an error), the handler reports that failure, renames nothing and
  writes nothing: the file system is as the lookup left it, so every regular file is as it
  was before the call.
\<close>

theorem place_digest_first:
  assumes "(fs_quarantine h ts isoNow filePath r w = (res, w1)
              \<and> getDir = getQuarantineDir h \<and> d = path_join (userData h) ''Quarantine'')
         \<or> (fs_vault h ts isoNow filePath r w = (res, w1)
              \<and> getDir = getVaultDir h \<and> d = path_join (userData h) ''Vault'')"
  shows "\<exists>r0 w0.
           getDir w = (r0, w0)
         \<and> (\<forall>q. map_of (nodes w0) q = map_of (nodes w) q
                 \<or> (q \<in> set (dir_chain d) \<and> map_of (nodes w) q = None
                     \<and> map_of (nodes w0) q = Some Directory))
         \<and> (r0 = Inr d \<or> (\<exists>e. r0 = Inl e))
         \<and> (\<forall>e. r0 = Inl e \<longrightarrow>
                res = Inl e \<and> w1 = w0 \<and> trace w1 = trace w @ [EvMkdir d])
         \<and> (r0 = Inr d \<longrightarrow>
                (trace w0 = trace w \<or> trace w0 = trace w @ [EvMkdir d])
              \<and> (\<exists>rest. trace w1 = trace w0 @ [EvHash filePath] @ rest
                     \<and> (rest = [] \<or> (\<exists>held. rest = [EvRename filePath held])
                         \<or> (\<exists>held data. rest = [EvRename filePath held,
                                                      EvWrite (held @ ''.meta.json'') data])))
              \<and> (\<forall>e. fst (getFileHash h filePath w0) = Inl e \<longrightarrow>
                     res = Inl e \<and> trace w1 = trace w0 @ [EvHash filePath] \<and> nodes w1 = nodes w0
                     \<and> (\<forall>p b. (map_of (nodes w1) p = Some (File b))
                               = (map_of (nodes w) p = Some (File b)))))"
  using assms
proof (elim disjE conjE)
  assume "fs_quarantine h ts isoNow filePath r w = (res, w1)"
    and g: "getDir = getQuarantineDir h" and d: "d = path_join (userData h) ''Quarantine''"
  then have "place_file h (getQuarantineDir h) ''.quarantined''
               (\<lambda>m. m\<lparr>quarantinedAt := Some isoNow\<rparr>) ts filePath r w = (res, w1)"
    by (simp add: fs_quarantine_place)
  then show ?thesis unfolding d g
    by (rule place_file_trace [rotated]) (simp_all add: sep_def getQuarantineDir_lookup)
next
  assume "fs_vault h ts isoNow filePath r w = (res, w1)"
    and g: "getDir = getVaultDir h" and d: "d = path_join (userData h) ''Vault''"
  then have "place_file h (getVaultDir h) ''.vault''
               (\<lambda>m. m\<lparr>vaultedAt := Some isoNow\<rparr>) ts filePath r w = (res, w1)"
    by (simp add: fs_vault_place)
  then show ?thesis unfolding d g
    by (rule place_file_trace [rotated]) (simp_all add: sep_def getVaultDir_lookup)
qed

theorem place_digest_first_witness:
  "fst (getQuarantineDir refusing_host first_run_world) = Inr ''/data/Quarantine''
   \<and> fst (getFileHash refusing_host ''/home/u/a.txt''
            (snd (getQuarantineDir refusing_host first_run_world))) = Inl EIO
   \<and> fst (fs_quarantine refusing_host 1700000000000 ''2023-11-14T22:13:20.000Z''
            ''/home/u/a.txt'' None first_run_world) = Inl EIO
   \<and> trace (snd (fs_quarantine refusing_host 1700000000000 ''2023-11-14T22:13:20.000Z''
                   ''/home/u/a.txt'' None first_run_world))
       = [EvMkdir ''/data/Quarantine'', EvHash ''/home/u/a.txt'']
   \<and> map_of (nodes (snd (fs_quarantine refusing_host 1700000000000 ''2023-11-14T22:13:20.000Z''
                   ''/home/u/a.txt'' None first_run_world))) ''/home/u/a.txt''
       = Some (File [1, 2])
   \<and> fst (getVaultDir refusing_host first_run_world) = Inl EACCES
   \<and> fst (fs_vault refusing_host 1700000000000 ''2023-11-14T22:13:20.000Z''
            ''/home/u/a.txt'' None first_run_world) = Inl EACCES
   \<and> trace (snd (fs_vault refusing_host 1700000000000 ''2023-11-14T22:13:20.000Z''
                   ''/home/u/a.txt'' None first_run_world))
       = [EvMkdir ''/data/Vault'']"
proof -
  let ?q = "fs_quarantine refusing_host 1700000000000 ''2023-11-14T22:13:20.000Z''
              ''/home/u/a.txt'' None first_run_world"
  let ?v = "fs_vault refusing_host 1700000000000 ''2023-11-14T22:13:20.000Z''
              ''/home/u/a.txt'' None first_run_world"
  let ?lq = "getQuarantineDir refusing_host first_run_world"
  let ?lv = "getVaultDir refusing_host first_run_world"
  have data: "userData refusing_host = ''/data''"
    by (simp add: refusing_host_def sample_host_def)
  have runq: "(?q = (fst ?q, snd ?q) \<and> getQuarantineDir refusing_host = getQuarantineDir refusing_host
                \<and> ''/data/Quarantine'' = path_join (userData refusing_host) ''Quarantine'')
      \<or> (fs_vault refusing_host 1700000000000 ''2023-11-14T22:13:20.000Z''
            ''/home/u/a.txt'' None first_run_world = (fst ?q, snd ?q)
          \<and> getQuarantineDir refusing_host = getVaultDir refusing_host
          \<and> ''/data/Quarantine'' = path_join (userData refusing_host) ''Vault'')"
    by (simp add: data path_join_def sep_def)
  have runv: "(fs_quarantine refusing_host 1700000000000 ''2023-11-14T22:13:20.000Z''
            ''/home/u/a.txt'' None first_run_world = (fst ?v, snd ?v)
          \<and> getVaultDir refusing_host = getQuarantineDir refusing_host
          \<and> ''/data/Vault'' = path_join (userData refusing_host) ''Quarantine'')
      \<or> (?v = (fst ?v, snd ?v) \<and> getVaultDir refusing_host = getVaultDir refusing_host
          \<and> ''/data/Vault'' = path_join (userData refusing_host) ''Vault'')"
    by (simp add: data path_join_def sep_def)
  have lq: "fst ?lq = Inr ''/data/Quarantine''"
    by code_simp
  have tq: "trace (snd ?lq) = [EvMkdir ''/data/Quarantine'']"
    by code_simp
  have hq: "fst (getFileHash refusing_host ''/home/u/a.txt'' (snd ?lq)) = Inl EIO"
    by code_simp
  have before: "map_of (nodes first_run_world) ''/home/u/a.txt'' = Some (File [1, 2])"
    by (simp add: first_run_world_def)
  have t0: "trace first_run_world = []"
    by (simp add: first_run_world_def)
  have lv: "fst ?lv = Inl EACCES"
    by code_simp
  from place_digest_first [OF runq] obtain r0 w0 where
    q0: "?lq = (r0, w0)"
    and q1: "r0 = Inr ''/data/Quarantine'' \<longrightarrow>
              (\<forall>e. fst (getFileHash refusing_host ''/home/u/a.txt'' w0) = Inl e \<longrightarrow>
                 fst ?q = Inl e
                 \<and> trace (snd ?q) = trace w0 @ [EvHash ''/home/u/a.txt'']
                 \<and> nodes (snd ?q) = nodes w0
                 \<and> (\<forall>p b. (map_of (nodes (snd ?q)) p = Some (File b))
                          = (map_of (nodes first_run_world) p = Some (File b))))"
    by blast
  from q0 lq have r0: "r0 = Inr ''/data/Quarantine''" by simp
  from q0 have w0: "w0 = snd ?lq" by simp
  from q1 r0 hq w0 have qres: "fst ?q = Inl EIO"
    and qtr: "trace (snd ?q) = trace (snd ?lq) @ [EvHash ''/home/u/a.txt'']"
    and qfiles: "\<forall>p b. (map_of (nodes (snd ?q)) p = Some (File b))
                          = (map_of (nodes first_run_world) p = Some (File b))"
    by blast+
  from qfiles before have qkept: "map_of (nodes (snd ?q)) ''/home/u/a.txt'' = Some (File [1, 2])"
    by blast
  from place_digest_first [OF runv] obtain r1 w2 where
    v0: "?lv = (r1, w2)"
    and v1: "\<forall>e. r1 = Inl e \<longrightarrow>
               fst ?v = Inl e \<and> snd ?v = w2
               \<and> trace (snd ?v) = trace first_run_world @ [EvMkdir ''/data/Vault'']"
    by blast
  from v0 lv have r1: "r1 = Inl EACCES" by simp
  with v1 have vres: "fst ?v = Inl EACCES"
    and vtr: "trace (snd ?v) = trace first_run_world @ [EvMkdir ''/data/Vault'']"
    by blast+
  from lq hq qres qtr tq qkept lv vres vtr t0 show ?thesis
    by simp
qed

section \<open>Properties of the shred handler\<close>






section \<open>Properties of the forensic scanner\<close>


lemma byte_counts_Nil: "byte_counts [] = replicate 256 0"
  by (simp add: byte_counts_def)





lemma entropy_loop_defined:
  assumes "len > 0 \<or> (\<forall>c \<in> set counts. c = 0)"
  shows "\<exists>e'. entropy_loop counts len (Some e) = Some e'"
  using assms by (induction counts arbitrary: e) (auto simp: js_div_def)


lemma buffer_entropy_defined: "\<exists>e. buffer_entropy buf = Some e"
  unfolding buffer_entropy_def
  by (rule entropy_loop_defined) (cases buf; simp add: byte_counts_Nil)












section \<open>Properties of the Sentry scheduler\<close>

lemma sentryTick_notes:
  assumes "enableProactiveSentry (settings st)"
    and "length (filter (\<lambda>f. folder f = SCREENSHOTS) files) = 16"
  shows "ss_notes (fst (sentryTick files now st))
           = (if snooze_or_0 (snoozeMap st) ''SCREENSHOTS'' + SNOOZE_DURATION > now then []
              else [\<lparr> note_id = ''ss-'' @ string_of_int now,
                    title = ''Screenshot Accumulation'',
                    message = ''I noticed you have '' @ string_of_nat 16
                      @ '' screenshots. Would you like me to identify those you might want to discard?'',
                    note_type = Type_SCREENSHOTS,
                    actionPrompt = Some (''Barricade, I have too many screenshots (''
                      @ string_of_nat 16
                      @ ''). Help me audit and delete the ones I don'' @ [CHR 0x27] @ ''t need.'') \<rparr>])"
  using assms by (simp add: sentryTick_def Let_def ss_notes_def)

lemma find_append_None:
  "\<forall>x \<in> set xs. \<not> P x \<Longrightarrow> find P (xs @ ys) = find P ys"
  by (induction xs) simp_all

lemma find_slice_last3:
  assumes old: "\<forall>n \<in> set old. \<not> P n" and new: "length new \<le> 3"
  shows "find P (slice_last3 (old @ new)) = find P new"
proof -
  have k: "length old + length new - 3 - length old = 0" "length new - 3 = 0"
    using new by arith+
  have "\<forall>n \<in> set (drop (length old + length new - 3) old). \<not> P n"
    using old by (auto dest: in_set_dropD)
  then show ?thesis
    by (simp add: slice_last3_def k find_append_None)
qed

text \<open>What a tick that runs leaves in the state.\<close>

lemma sentryTick_state:
  assumes "enableProactiveSentry (settings st)"
    and "length (filter (\<lambda>f. folder f = SCREENSHOTS) files) = 16"
    and "\<not> snooze_or_0 (snoozeMap st) ''SCREENSHOTS'' + SNOOZE_DURATION > now"
    and "\<forall>n \<in> set (notifications st). note_id n \<noteq> ''ss-'' @ string_of_int now"
  shows "snoozeMap (snd (sentryTick files now st)) = snoozeMap st"
    and "settings (snd (sentryTick files now st)) = settings st"
    and "\<exists>note. find (\<lambda>n. note_id n = ''ss-'' @ string_of_int now)
                   (notifications (snd (sentryTick files now st))) = Some note
              \<and> note_type note = Type_SCREENSHOTS
              \<and> (\<exists>c cs. actionPrompt note = Some (c # cs))"
  using assms
  by (simp_all add: sentryTick_def Let_def find_slice_last3)

lemma handleNotificationAction_snoozes:
  assumes "find (\<lambda>n. note_id n = ident) (notifications st) = Some note"
    and "snooze \<or> (\<exists>c cs. actionPrompt note = Some (c # cs))"
  shows "snoozeMap (handleNotificationAction ident snooze t st) (type_key (note_type note)) = Some t"
    and "settings (handleNotificationAction ident snooze t st) = settings st"
  using assms by (auto simp: handleNotificationAction_def Let_def)

text \<open>
  C2, as amended. A tick that runs with the Sentry enabled, sees 16 screenshot files, finds no
  \<open>SCREENSHOTS\<close> entry in the snooze map and reads a clock of at least 30 minutes emits
  exactly one \<open>SCREENSHOTS\<close> notification. A second tick less than 30 minutes after the
  first emits no \<open>SCREENSHOTS\<close> notification when that notification was dismissed or its
  action executed in between: it is the handler of the notification that writes the snooze
  map, the tick never does. With nothing in between, the second tick emits exactly one
  \<open>SCREENSHOTS\<close> notification again.
\<close>

theorem sentry_screenshot_throttle:
  assumes enabled: "enableProactiveSentry (settings st)"
    and shots1: "length (filter (\<lambda>f. folder f = SCREENSHOTS) files1) = 16"
    and shots2: "length (filter (\<lambda>f. folder f = SCREENSHOTS) files2) = 16"
    and no_entry: "snoozeMap st ''SCREENSHOTS'' = None"
    and clock: "SNOOZE_DURATION \<le> now1"
    and times: "now1 \<le> t" "t \<le> now2" "now2 < now1 + SNOOZE_DURATION"
    and ids: "\<forall>n \<in> set (notifications st). note_id n \<noteq> ''ss-'' @ string_of_int now1"
  shows "length (filter (\<lambda>n. note_type n = Type_SCREENSHOTS) (fst (sentryTick files1 now1 st))) = 1
       \<and> filter (\<lambda>n. note_type n = Type_SCREENSHOTS)
           (fst (sentryTick files2 now2
                  (handleNotificationAction (''ss-'' @ string_of_int now1) snooze t
                     (snd (sentryTick files1 now1 st))))) = []
       \<and> length (filter (\<lambda>n. note_type n = Type_SCREENSHOTS)
                   (fst (sentryTick files2 now2 (snd (sentryTick files1 now1 st))))) = 1"
proof -
  let ?st1 = "snd (sentryTick files1 now1 st)"
  let ?id = "''ss-'' @ string_of_int now1"
  let ?st2 = "handleNotificationAction ?id snooze t ?st1"
  have awake: "\<not> snooze_or_0 (snoozeMap st) ''SCREENSHOTS'' + SNOOZE_DURATION > now1"
    using no_entry clock by (simp add: snooze_or_0_def)
  have first: "length (ss_notes (fst (sentryTick files1 now1 st))) = 1"
    using awake by (subst sentryTick_notes [OF enabled shots1]) simp
  note st1 = sentryTick_state [OF enabled shots1 awake ids]
  from st1(3) obtain nt where nt:
    "find (\<lambda>n. note_id n = ?id) (notifications ?st1) = Some nt"
    "note_type nt = Type_SCREENSHOTS" "\<exists>c cs. actionPrompt nt = Some (c # cs)"
    by blast
  from handleNotificationAction_snoozes [OF nt(1), of snooze t] nt(2,3)
  have st2: "snoozeMap ?st2 ''SCREENSHOTS'' = Some t" "settings ?st2 = settings ?st1"
    by auto
  have enabled2: "enableProactiveSentry (settings ?st2)"
    using st2(2) st1(2) enabled by simp
  have asleep: "snooze_or_0 (snoozeMap ?st2) ''SCREENSHOTS'' + SNOOZE_DURATION > now2"
    using st2(1) times by (simp add: snooze_or_0_def)
  have second: "ss_notes (fst (sentryTick files2 now2 ?st2)) = []"
    using asleep by (subst sentryTick_notes [OF enabled2 shots2]) simp
  have enabled1: "enableProactiveSentry (settings ?st1)"
    using st1(2) enabled by simp
  have awake1: "\<not> snooze_or_0 (snoozeMap ?st1) ''SCREENSHOTS'' + SNOOZE_DURATION > now2"
    using st1(1) no_entry clock times by (simp add: snooze_or_0_def)
  have again: "length (ss_notes (fst (sentryTick files2 now2 ?st1))) = 1"
    using awake1 by (subst sentryTick_notes [OF enabled1 shots2]) simp
  from first second again show ?thesis
    by (simp add: ss_notes_def)
qed

text \<open>
  C2, as stated, fails: with 16 screenshots and an empty snooze map, a second tick one minute
  after the first, with no dismissal and no action in between, emits a \<open>SCREENSHOTS\<close>
  notification again.
\<close>

theorem sentry_second_tick_emits_again:
  "snoozeMap idle_state ''SCREENSHOTS'' = None
   \<and> length (filter (\<lambda>f. folder f = SCREENSHOTS) (replicate 16 screenshot_file)) = 16
   \<and> map note_id (filter (\<lambda>n. note_type n = Type_SCREENSHOTS)
        (fst (sentryTick (replicate 16 screenshot_file) 1700000000000 idle_state)))
       = [''ss-1700000000000'']
   \<and> 1700000060000 - 1700000000000 < SNOOZE_DURATION
   \<and> map note_id (filter (\<lambda>n. note_type n = Type_SCREENSHOTS)
        (fst (sentryTick (replicate 16 screenshot_file) 1700000060000
                (snd (sentryTick (replicate 16 screenshot_file) 1700000000000 idle_state)))))
       = [''ss-1700000060000'']"
  by code_simp

theorem sentry_screenshot_throttle_witness:
  "enableProactiveSentry (settings idle_state)
   \<and> length (filter (\<lambda>f. folder f = SCREENSHOTS) (replicate 16 screenshot_file)) = 16
   \<and> snoozeMap idle_state ''SCREENSHOTS'' = None
   \<and> notifications idle_state = []
   \<and> length (filter (\<lambda>n. note_type n = Type_SCREENSHOTS)
        (fst (sentryTick (replicate 16 screenshot_file) 1700000000000 idle_state))) = 1
   \<and> filter (\<lambda>n. note_type n = Type_SCREENSHOTS)
        (fst (sentryTick (replicate 16 screenshot_file) 1700000060000
               (handleNotificationAction (''ss-'' @ string_of_int 1700000000000) True 1700000030000
                  (snd (sentryTick (replicate 16 screenshot_file) 1700000000000 idle_state))))) = []
   \<and> filter (\<lambda>n. note_type n = Type_SCREENSHOTS)
        (fst (sentryTick (replicate 16 screenshot_file) 1700000060000
               (handleNotificationAction (''ss-'' @ string_of_int 1700000000000) False 1700000030000
                  (snd (sentryTick (replicate 16 screenshot_file) 1700000000000 idle_state))))) = []"
proof -
  have enabled: "enableProactiveSentry (settings idle_state)"
    by (simp add: idle_state_def)
  have shots: "length (filter (\<lambda>f. folder f = SCREENSHOTS) (replicate 16 screenshot_file)) = 16"
    by (simp add: screenshot_file_def)
  have no_entry: "snoozeMap idle_state ''SCREENSHOTS'' = None"
    by (simp add: idle_state_def)
  have empty: "notifications idle_state = []"
    by (simp add: idle_state_def)
  then have ids: "\<forall>n \<in> set (notifications idle_state).
                     note_id n \<noteq> ''ss-'' @ string_of_int 1700000000000"
    by simp
  have clock: "SNOOZE_DURATION \<le> 1700000000000"
    by (simp add: SNOOZE_DURATION_def)
  have times: "(1700000000000 :: int) \<le> 1700000030000" "(1700000030000 :: int) \<le> 1700000060000"
    "1700000060000 < 1700000000000 + SNOOZE_DURATION"
    by (simp_all add: SNOOZE_DURATION_def)
  note dismiss = sentry_screenshot_throttle [OF enabled shots shots no_entry clock times ids,
      of True]
  note act = sentry_screenshot_throttle [OF enabled shots shots no_entry clock times ids,
      of False]
  from enabled shots no_entry empty dismiss act show ?thesis
    by (intro conjI) (erule conjunct1 conjunct2 | assumption | (drule conjunct2, erule conjunct1))+
qed

end
